theory Spec2Isabelle
  imports Complex_Main "HOL-Library.Char_ord"
begin

section \<open>Data model (types.ts)\<close>

text \<open>
  The field names of the TypeScript interfaces are kept, with a short prefix per
  interface (\<open>tk_\<close> for Token, \<open>ce_\<close> for CompilerError, \<open>se_\<close> for SymbolEntry,
  \<open>lx_\<close>, \<open>ps_\<close>, \<open>sa_\<close> for the private fields of the classes Lexer, Parser and
  SemanticAnalyzer), because several interfaces share field names.

  JavaScript numbers are kept abstract: the type parameter \<open>'n\<close> stands for the values
  of \<open>number\<close>, and the built-in \<open>parseFloat\<close> is a parameter \<open>pf\<close> of the functions
  that call it.
\<close>

datatype TokenType =
  INTEGER | FLOAT | IDENTIFIER | PLUS | MINUS | STAR | SLASH | CARET
  | LPAREN | RPAREN | EQUALS | EOF | ERROR

record Position =
  line :: nat
  column :: nat

record 'n Token =
  tk_type :: TokenType
  tk_lexeme :: string
  tk_position :: Position
  tk_literal :: "'n option"

datatype DataType = Integer | Float

text \<open>
  ASTNode: the optional field \<open>resolvedType\<close> is the last argument of the four
  expression constructors; an Assignment has none. Operators are stored as the strings
  the parser copies from the operator token's lexeme.
\<close>

datatype 'n ASTNode =
    Assignment string "'n ASTNode" Position
  | BinaryExpr string "'n ASTNode" "'n ASTNode" Position "DataType option"
  | UnaryExpr string "'n ASTNode" Position "DataType option"
  | Literal 'n DataType Position "DataType option"
  | Variable string Position "DataType option"

record SymbolEntry =
  se_name :: string
  se_type :: DataType
  se_definedAt :: Position

type_synonym SymbolTable = "string \<rightharpoonup> SymbolEntry"

datatype CompilerPhase = Lexical | Syntax | Semantic

record CompilerError =
  ce_phase :: CompilerPhase
  ce_message :: string
  ce_position :: Position
  ce_expected :: "string option"
  ce_actual :: "string option"
  ce_variableName :: "string option"

text \<open>A TokenType is a string at run time; \<open>typeName\<close> gives that string.\<close>

fun typeName :: "TokenType \<Rightarrow> string" where
  "typeName INTEGER = ''INTEGER''"
| "typeName FLOAT = ''FLOAT''"
| "typeName IDENTIFIER = ''IDENTIFIER''"
| "typeName PLUS = ''PLUS''"
| "typeName MINUS = ''MINUS''"
| "typeName STAR = ''STAR''"
| "typeName SLASH = ''SLASH''"
| "typeName CARET = ''CARET''"
| "typeName LPAREN = ''LPAREN''"
| "typeName RPAREN = ''RPAREN''"
| "typeName EQUALS = ''EQUALS''"
| "typeName EOF = ''EOF''"
| "typeName ERROR = ''ERROR''"

text \<open>Indexing an array or a string out of range gives \<open>undefined\<close>, here \<open>None\<close>.\<close>

definition elemAt :: "'a list \<Rightarrow> nat \<Rightarrow> 'a option" where
  "elemAt xs i = (if i < length xs then Some (xs ! i) else None)"

text \<open>
  \<open>String.prototype.substring(a, b)\<close>: both indices are clamped to the length and
  swapped when \<open>a > b\<close>.
\<close>

definition substring :: "string \<Rightarrow> nat \<Rightarrow> nat \<Rightarrow> string" where
  "substring s a b =
     (let a' = min a (length s); b' = min b (length s);
          lo = min a' b'; hi = max a' b'
      in take (hi - lo) (drop lo s))"


section \<open>Lexer (lexer.ts)\<close>

record 'n Lexer =
  lx_source :: string
  lx_tokens :: "'n Token list"
  lx_start :: nat
  lx_current :: nat
  lx_line :: nat
  lx_column :: nat
  lx_startColumn :: nat

definition newLexer :: "string \<Rightarrow> 'n Lexer" where
  "newLexer src =
     \<lparr>lx_source = src, lx_tokens = [], lx_start = 0, lx_current = 0,
      lx_line = 1, lx_column = 1, lx_startColumn = 1\<rparr>"

definition isAtEndL :: "'n Lexer \<Rightarrow> bool" where
  "isAtEndL lx = (lx_current lx \<ge> length (lx_source lx))"

text \<open>\<open>advance\<close> returns \<open>source[current]\<close> (\<open>undefined\<close> out of range) and moves on.\<close>

definition advanceL :: "'n Lexer \<Rightarrow> char option \<times> 'n Lexer" where
  "advanceL lx =
     (elemAt (lx_source lx) (lx_current lx),
      lx\<lparr>lx_current := lx_current lx + 1, lx_column := lx_column lx + 1\<rparr>)"

definition peekL :: "'n Lexer \<Rightarrow> char" where
  "peekL lx = (if isAtEndL lx then CHR 0x00 else lx_source lx ! lx_current lx)"

definition peekNext :: "'n Lexer \<Rightarrow> char" where
  "peekNext lx =
     (if lx_current lx + 1 \<ge> length (lx_source lx) then CHR 0x00
      else lx_source lx ! (lx_current lx + 1))"

definition isDigit :: "char \<Rightarrow> bool" where
  "isDigit c = (c \<ge> CHR ''0'' \<and> c \<le> CHR ''9'')"

definition isAlpha :: "char \<Rightarrow> bool" where
  "isAlpha c =
     ((c \<ge> CHR ''a'' \<and> c \<le> CHR ''z'') \<or> (c \<ge> CHR ''A'' \<and> c \<le> CHR ''Z'')
      \<or> c = CHR ''_'')"

definition isAlphaNumeric :: "char \<Rightarrow> bool" where
  "isAlphaNumeric c = (isAlpha c \<or> isDigit c)"

definition getPosition :: "'n Lexer \<Rightarrow> Position" where
  "getPosition lx = \<lparr>line = lx_line lx, column = lx_startColumn lx\<rparr>"

definition addToken :: "TokenType \<Rightarrow> 'n option \<Rightarrow> 'n Lexer \<Rightarrow> 'n Lexer" where
  "addToken ty literal lx =
     lx\<lparr>lx_tokens := lx_tokens lx @
        [\<lparr>tk_type = ty,
          tk_lexeme = substring (lx_source lx) (lx_start lx) (lx_current lx),
          tk_position = getPosition lx,
          tk_literal = literal\<rparr>]\<rparr>"

definition addErrorToken :: "'n Lexer \<Rightarrow> 'n Lexer" where
  "addErrorToken lx =
     lx\<lparr>lx_tokens := lx_tokens lx @
        [\<lparr>tk_type = ERROR,
          tk_lexeme = substring (lx_source lx) (lx_start lx) (lx_current lx),
          tk_position = getPosition lx,
          tk_literal = None\<rparr>]\<rparr>"

text \<open>The loop \<open>while (this.isDigit(this.peek())) this.advance()\<close> of \<open>number\<close>.\<close>

function digitsLoop :: "'n Lexer \<Rightarrow> 'n Lexer" where
  "digitsLoop lx =
     (if isDigit (peekL lx) then digitsLoop (snd (advanceL lx)) else lx)"
  by pat_completeness auto
termination
  by (relation "measure (\<lambda>lx. length (lx_source lx) - lx_current lx)")
     (auto simp: isDigit_def peekL_def advanceL_def isAtEndL_def split: if_splits)

declare digitsLoop.simps [simp del]

text \<open>The loop \<open>while (this.isAlphaNumeric(this.peek())) this.advance()\<close> of \<open>identifier\<close>.\<close>

function alnumLoop :: "'n Lexer \<Rightarrow> 'n Lexer" where
  "alnumLoop lx =
     (if isAlphaNumeric (peekL lx) then alnumLoop (snd (advanceL lx)) else lx)"
  by pat_completeness auto
termination
  by (relation "measure (\<lambda>lx. length (lx_source lx) - lx_current lx)")
     (auto simp: isAlphaNumeric_def isAlpha_def isDigit_def peekL_def advanceL_def
        isAtEndL_def split: if_splits)

declare alnumLoop.simps [simp del]

definition number :: "(string \<Rightarrow> 'n) \<Rightarrow> 'n Lexer \<Rightarrow> 'n Lexer" where
  "number pf lx =
     (let lx1 = digitsLoop lx;
          isFloat = (peekL lx1 = CHR ''.'' \<and> isDigit (peekNext lx1));
          lx2 = (if isFloat then digitsLoop (snd (advanceL lx1)) else lx1);
          lexeme = substring (lx_source lx2) (lx_start lx2) (lx_current lx2);
          literal = pf lexeme
      in addToken (if isFloat then FLOAT else INTEGER) (Some literal) lx2)"

definition identifierL :: "'n Lexer \<Rightarrow> 'n Lexer" where
  "identifierL lx = addToken IDENTIFIER None (alnumLoop lx)"

text \<open>
  \<open>scanToken\<close>: the \<open>switch\<close> on the character returned by \<open>advance\<close>. Were that
  character \<open>undefined\<close>, no \<open>case\<close> would match and both comparisons of the default
  branch would be false, so the error token would be added.
\<close>

definition scanToken :: "(string \<Rightarrow> 'n) \<Rightarrow> 'n Lexer \<Rightarrow> 'n Lexer" where
  "scanToken pf lx =
     (let (c, lx1) = advanceL lx in
      case c of
        None \<Rightarrow> addErrorToken lx1
      | Some ch \<Rightarrow>
          if ch = CHR ''+'' then addToken PLUS None lx1
          else if ch = CHR ''-'' then addToken MINUS None lx1
          else if ch = CHR ''*'' then addToken STAR None lx1
          else if ch = CHR ''/'' then addToken SLASH None lx1
          else if ch = CHR ''^'' then addToken CARET None lx1
          else if ch = CHR ''('' then addToken LPAREN None lx1
          else if ch = CHR '')'' then addToken RPAREN None lx1
          else if ch = CHR ''='' then addToken EQUALS None lx1
          else if ch = CHR '' '' \<or> ch = CHR 0x0D \<or> ch = CHR 0x09 then lx1
          else if ch = CHR 0x0A then lx1\<lparr>lx_line := lx_line lx1 + 1, lx_column := 1\<rparr>
          else if isDigit ch then number pf lx1
          else if isAlpha ch then identifierL lx1
          else addErrorToken lx1)"

lemma digitsLoop_source [simp]: "lx_source (digitsLoop lx) = lx_source lx"
  by (induction lx rule: digitsLoop.induct)
     (subst digitsLoop.simps, simp add: advanceL_def)

lemma digitsLoop_current: "lx_current lx \<le> lx_current (digitsLoop lx)"
proof (induction lx rule: digitsLoop.induct)
  case (1 lx)
  show ?case
  proof (cases "isDigit (peekL lx)")
    case True
    with 1 have "lx_current (snd (advanceL lx)) \<le> lx_current (digitsLoop (snd (advanceL lx)))"
      by simp
    with True show ?thesis
      by (subst digitsLoop.simps) (simp add: advanceL_def)
  next
    case False
    then show ?thesis by (subst digitsLoop.simps) simp
  qed
qed

lemma alnumLoop_source [simp]: "lx_source (alnumLoop lx) = lx_source lx"
  by (induction lx rule: alnumLoop.induct)
     (subst alnumLoop.simps, simp add: advanceL_def)

lemma alnumLoop_current: "lx_current lx \<le> lx_current (alnumLoop lx)"
proof (induction lx rule: alnumLoop.induct)
  case (1 lx)
  show ?case
  proof (cases "isAlphaNumeric (peekL lx)")
    case True
    with 1 have "lx_current (snd (advanceL lx)) \<le> lx_current (alnumLoop (snd (advanceL lx)))"
      by simp
    with True show ?thesis
      by (subst alnumLoop.simps) (simp add: advanceL_def)
  next
    case False
    then show ?thesis by (subst alnumLoop.simps) simp
  qed
qed

lemma addToken_source [simp]: "lx_source (addToken ty l lx) = lx_source lx"
  by (simp add: addToken_def)

lemma addToken_current [simp]: "lx_current (addToken ty l lx) = lx_current lx"
  by (simp add: addToken_def)

lemma addErrorToken_source [simp]: "lx_source (addErrorToken lx) = lx_source lx"
  by (simp add: addErrorToken_def)

lemma addErrorToken_current [simp]: "lx_current (addErrorToken lx) = lx_current lx"
  by (simp add: addErrorToken_def)

lemma number_source [simp]: "lx_source (number pf lx) = lx_source lx"
  by (simp add: number_def Let_def advanceL_def)

lemma number_current: "lx_current lx \<le> lx_current (number pf lx)"
proof -
  have a: "lx_current lx \<le> lx_current (digitsLoop lx)"
    by (rule digitsLoop_current)
  have b: "lx_current (snd (advanceL (digitsLoop lx)))
             \<le> lx_current (digitsLoop (snd (advanceL (digitsLoop lx))))"
    by (rule digitsLoop_current)
  have c: "lx_current (digitsLoop lx) \<le> lx_current (snd (advanceL (digitsLoop lx)))"
    by (simp add: advanceL_def)
  from a b c show ?thesis
    by (simp add: number_def Let_def)
qed

lemma identifierL_source [simp]: "lx_source (identifierL lx) = lx_source lx"
  by (simp add: identifierL_def)

lemma identifierL_current: "lx_current lx \<le> lx_current (identifierL lx)"
  by (simp add: identifierL_def alnumLoop_current)

lemma scanToken_source [simp]: "lx_source (scanToken pf lx) = lx_source lx"
  by (simp add: scanToken_def advanceL_def split: option.splits)

lemma scanToken_current: "lx_current lx < lx_current (scanToken pf lx)"
proof -
  let ?lx1 = "lx\<lparr>lx_current := lx_current lx + 1, lx_column := lx_column lx + 1\<rparr>"
  have n: "lx_current ?lx1 \<le> lx_current (number pf ?lx1)"
    by (rule number_current)
  have i: "lx_current ?lx1 \<le> lx_current (identifierL ?lx1)"
    by (rule identifierL_current)
  from n i show ?thesis
    by (simp add: scanToken_def advanceL_def split: option.splits)
qed

text \<open>The loop of \<open>tokenize\<close>: \<open>while (!this.isAtEnd()) { ...; this.scanToken(); }\<close>.\<close>

function tokenizeLoop :: "(string \<Rightarrow> 'n) \<Rightarrow> 'n Lexer \<Rightarrow> 'n Lexer" where
  "tokenizeLoop pf lx =
     (if \<not> isAtEndL lx
      then tokenizeLoop pf
             (scanToken pf (lx\<lparr>lx_start := lx_current lx, lx_startColumn := lx_column lx\<rparr>))
      else lx)"
  by pat_completeness auto
termination
proof (relation "measure (\<lambda>(pf, lx). length (lx_source lx) - lx_current lx)")
  show "wf (measure (\<lambda>(pf :: string \<Rightarrow> 'n, lx :: 'n Lexer).
              length (lx_source lx) - lx_current lx))"
    by simp
next
  fix pf :: "string \<Rightarrow> 'n" and lx :: "'n Lexer"
  let ?lx0 = "lx\<lparr>lx_start := lx_current lx, lx_startColumn := lx_column lx\<rparr>"
  assume "\<not> isAtEndL lx"
  then have lt: "lx_current lx < length (lx_source lx)"
    by (simp add: isAtEndL_def)
  have "lx_current ?lx0 < lx_current (scanToken pf ?lx0)"
    by (rule scanToken_current)
  with lt show "((pf, scanToken pf ?lx0), (pf, lx))
        \<in> measure (\<lambda>(pf, lx). length (lx_source lx) - lx_current lx)"
    by simp
qed

declare tokenizeLoop.simps [simp del]

text \<open>The method \<open>tokenize\<close> of the class, and the exported function \<open>tokenize\<close>.\<close>

definition tokenizeL :: "(string \<Rightarrow> 'n) \<Rightarrow> 'n Lexer \<Rightarrow> 'n Token list" where
  "tokenizeL pf lx =
     (let lx' = tokenizeLoop pf lx
      in lx_tokens lx' @
         [\<lparr>tk_type = EOF, tk_lexeme = '''',
           tk_position = \<lparr>line = lx_line lx', column = lx_column lx'\<rparr>,
           tk_literal = None\<rparr>])"

definition tokenize :: "(string \<Rightarrow> 'n) \<Rightarrow> string \<Rightarrow> 'n Token list" where
  "tokenize pf src = tokenizeL pf (newLexer src)"

section \<open>Parser (parser.ts)\<close>

record 'n ParseResult =
  pr_ast :: "'n ASTNode list"
  pr_errors :: "CompilerError list"

record 'n Parser =
  ps_tokens :: "'n Token list"
  ps_current :: nat
  ps_errors :: "CompilerError list"

datatype exn = Error string | TypeError

datatype ('a, 'n) res = Ok 'a "'n Parser" | Throw exn "'n Parser"

definition bindR ::
  "('a, 'n) res \<Rightarrow> ('a \<Rightarrow> 'n Parser \<Rightarrow> ('b, 'n) res) \<Rightarrow> ('b, 'n) res" where
  "bindR r f = (case r of Ok v p \<Rightarrow> f v p | Throw e p \<Rightarrow> Throw e p)"

definition field :: "'a option \<Rightarrow> ('a \<Rightarrow> 'b) \<Rightarrow> 'n Parser \<Rightarrow> ('b, 'n) res" where
  "field obj sel p = (case obj of None \<Rightarrow> Throw TypeError p | Some x \<Rightarrow> Ok (sel x) p)"

definition peek :: "'n Parser \<Rightarrow> 'n Token option" where
  "peek p = elemAt (ps_tokens p) (ps_current p)"

definition previous :: "'n Parser \<Rightarrow> 'n Token option" where
  "previous p = (if ps_current p = 0 then None else elemAt (ps_tokens p) (ps_current p - 1))"

definition isAtEnd :: "'n Parser \<Rightarrow> (bool, 'n) res" where
  "isAtEnd p = field (peek p) (\<lambda>t. tk_type t = EOF) p"

definition advance :: "'n Parser \<Rightarrow> ('n Token option, 'n) res" where
  "advance p =
     bindR (isAtEnd p) (\<lambda>e p.
       let p' = (if \<not> e then p\<lparr>ps_current := ps_current p + 1\<rparr> else p)
       in Ok (previous p') p')"

definition check :: "TokenType \<Rightarrow> 'n Parser \<Rightarrow> (bool, 'n) res" where
  "check ty p =
     bindR (isAtEnd p) (\<lambda>e p.
       if e then Ok False p else field (peek p) (\<lambda>t. tk_type t = ty) p)"

fun match :: "TokenType list \<Rightarrow> 'n Parser \<Rightarrow> (bool, 'n) res" where
  "match [] p = Ok False p"
| "match (ty # types) p =
     bindR (check ty p) (\<lambda>c p.
       if c then bindR (advance p) (\<lambda>_ p. Ok True p) else match types p)"

definition addError ::
  "string \<Rightarrow> Position \<Rightarrow> string option \<Rightarrow> string option \<Rightarrow> 'n Parser \<Rightarrow> 'n Parser" where
  "addError message position expected actual p =
     p\<lparr>ps_errors := ps_errors p @
        [\<lparr>ce_phase = Syntax, ce_message = message, ce_position = position,
          ce_expected = expected, ce_actual = actual, ce_variableName = None\<rparr>]\<rparr>"

definition expect :: "TokenType \<Rightarrow> string \<Rightarrow> 'n Parser \<Rightarrow> ('n Token option, 'n) res" where
  "expect ty message p =
     bindR (check ty p) (\<lambda>c p.
       if c then advance p
       else bindR (field (peek p) (\<lambda>t. t) p) (\<lambda>token p.
         Throw (Error message)
           (addError message (tk_position token) (Some (typeName ty))
              (Some (typeName (tk_type token))) p)))"

definition lookAhead :: "nat \<Rightarrow> 'n Parser \<Rightarrow> 'n Token option" where
  "lookAhead n p =
     (let index = ps_current p + n
      in if index < length (ps_tokens p) then elemAt (ps_tokens p) index else None)"



lemma check_Ok_True:
  "check ty p = Ok True p' \<Longrightarrow> p' = p \<and> ps_current p < length (ps_tokens p)"
  by (auto simp: check_def isAtEnd_def field_def bindR_def peek_def elemAt_def
      split: option.splits if_splits)

lemma advance_after_check:
  "check ty p = Ok True p \<Longrightarrow> advance p = Ok v p' \<Longrightarrow>
     ps_tokens p' = ps_tokens p \<and> ps_current p' = ps_current p + 1"
  by (auto simp: check_def advance_def isAtEnd_def field_def bindR_def peek_def elemAt_def
      Let_def split: option.splits if_splits)

text \<open>The loop \<open>while (this.check('ERROR')) this.advance()\<close> of \<open>parseStatement\<close>.\<close>

function skipErrors :: "'n Parser \<Rightarrow> (unit, 'n) res" where
  "skipErrors p =
     (case check ERROR p of
        Throw e p1 \<Rightarrow> Throw e p1
      | Ok c p1 \<Rightarrow>
          if c then
            (case advance p1 of
               Throw e p2 \<Rightarrow> Throw e p2
             | Ok t p2 \<Rightarrow> skipErrors p2)
          else Ok () p1)"
  by pat_completeness auto
termination
proof (relation "measure (\<lambda>p. length (ps_tokens p) - ps_current p)")
  show "wf (measure (\<lambda>p :: 'n Parser. length (ps_tokens p) - ps_current p))"
    by simp
next
  fix p p1 p2 :: "'n Parser" and c :: bool and t :: "'n Token option"
  assume c1: "check ERROR p = Ok c p1" and c2: "c" and a: "advance p1 = Ok t p2"
  from c1 c2 have c3: "check ERROR p = Ok True p1" by simp
  from c3 have e: "p1 = p" and lt: "ps_current p < length (ps_tokens p)"
    using check_Ok_True by blast+
  from c3 e a have "ps_tokens p2 = ps_tokens p \<and> ps_current p2 = ps_current p + 1"
    using advance_after_check by blast
  with lt show "(p2, p) \<in> measure (\<lambda>p. length (ps_tokens p) - ps_current p)"
    by simp
qed

declare skipErrors.simps [simp del]

definition bindF ::
  "('a, 'n) res option \<Rightarrow> ('a \<Rightarrow> 'n Parser \<Rightarrow> ('b, 'n) res option)
     \<Rightarrow> ('b, 'n) res option" where
  "bindF r f =
     (case r of
        None \<Rightarrow> None
      | Some (Throw e p) \<Rightarrow> Some (Throw e p)
      | Some (Ok v p) \<Rightarrow> f v p)"

definition createLiteralNode ::
  "(string \<Rightarrow> 'n) \<Rightarrow> 'n Token option \<Rightarrow> DataType \<Rightarrow> 'n Parser \<Rightarrow> ('n ASTNode, 'n) res" where
  "createLiteralNode pf token dataType p =
     (case token of
        None \<Rightarrow> Throw TypeError p
      | Some tok \<Rightarrow>
          Ok (Literal (case tk_literal tok of Some v \<Rightarrow> v | None \<Rightarrow> pf (tk_lexeme tok))
                dataType (tk_position tok) None) p)"

definition createVariableNode :: "'n Token option \<Rightarrow> 'n Parser \<Rightarrow> ('n ASTNode, 'n) res" where
  "createVariableNode token p =
     (case token of
        None \<Rightarrow> Throw TypeError p
      | Some tok \<Rightarrow> Ok (Variable (tk_lexeme tok) (tk_position tok) None) p)"

text \<open>
  The expression methods call each other recursively. They are one function
  \<open>parseMethod\<close> over the fuel, with the method as an argument; the loops of
  \<open>parseAdditive\<close> and \<open>parseMultiplicative\<close> are the methods \<open>AdditiveLoop\<close> and
  \<open>MultiplicativeLoop\<close>, which carry the local variable \<open>left\<close>. Every call costs
  one unit of fuel, and \<open>None\<close> means that the fuel ran out.
\<close>

datatype 'n parserMethod =
    ParseExpression | ParseAdditive | AdditiveLoop "'n ASTNode"
  | ParseMultiplicative | MultiplicativeLoop "'n ASTNode"
  | ParsePower | ParseUnary | ParsePrimary

fun parseMethod ::
  "(string \<Rightarrow> 'n) \<Rightarrow> nat \<Rightarrow> 'n parserMethod \<Rightarrow> 'n Parser \<Rightarrow> ('n ASTNode, 'n) res option" where
  "parseMethod pf 0 m p = None"
| "parseMethod pf (Suc n) ParseExpression p = parseMethod pf n ParseAdditive p"
| "parseMethod pf (Suc n) ParseAdditive p =
     bindF (parseMethod pf n ParseMultiplicative p) (\<lambda>left p.
       parseMethod pf n (AdditiveLoop left) p)"
| "parseMethod pf (Suc n) (AdditiveLoop left) p =
     bindF (Some (match [PLUS, MINUS] p)) (\<lambda>m p.
       if m then
         bindF (Some (field (previous p) tk_lexeme p)) (\<lambda>operator p.
         bindF (Some (field (previous p) tk_position p)) (\<lambda>position p.
         bindF (parseMethod pf n ParseMultiplicative p) (\<lambda>right p.
           parseMethod pf n (AdditiveLoop (BinaryExpr operator left right position None)) p)))
       else Some (Ok left p))"
| "parseMethod pf (Suc n) ParseMultiplicative p =
     bindF (parseMethod pf n ParsePower p) (\<lambda>left p.
       parseMethod pf n (MultiplicativeLoop left) p)"
| "parseMethod pf (Suc n) (MultiplicativeLoop left) p =
     bindF (Some (match [STAR, SLASH] p)) (\<lambda>m p.
       if m then
         bindF (Some (field (previous p) tk_lexeme p)) (\<lambda>operator p.
         bindF (Some (field (previous p) tk_position p)) (\<lambda>position p.
         bindF (parseMethod pf n ParsePower p) (\<lambda>right p.
           parseMethod pf n
             (MultiplicativeLoop (BinaryExpr operator left right position None)) p)))
       else Some (Ok left p))"
| "parseMethod pf (Suc n) ParsePower p =
     bindF (parseMethod pf n ParseUnary p) (\<lambda>left p.
     bindF (Some (match [CARET] p)) (\<lambda>m p.
       if m then
         bindF (Some (field (previous p) tk_position p)) (\<lambda>position p.
         bindF (parseMethod pf n ParsePower p) (\<lambda>right p.
           Some (Ok (BinaryExpr ''^'' left right position None) p)))
       else Some (Ok left p)))"
| "parseMethod pf (Suc n) ParseUnary p =
     bindF (Some (match [MINUS, PLUS] p)) (\<lambda>m p.
       if m then
         bindF (Some (field (previous p) tk_lexeme p)) (\<lambda>operator p.
         bindF (Some (field (previous p) tk_position p)) (\<lambda>position p.
         bindF (parseMethod pf n ParseUnary p) (\<lambda>operand p.
           Some (Ok (UnaryExpr operator operand position None) p))))
       else parseMethod pf n ParsePrimary p)"
| "parseMethod pf (Suc n) ParsePrimary p =
     bindF (Some (match [INTEGER] p)) (\<lambda>m p.
       if m then Some (createLiteralNode pf (previous p) Integer p)
       else
     bindF (Some (match [FLOAT] p)) (\<lambda>m p.
       if m then Some (createLiteralNode pf (previous p) Float p)
       else
     bindF (Some (match [IDENTIFIER] p)) (\<lambda>m p.
       if m then Some (createVariableNode (previous p) p)
       else
     bindF (Some (match [LPAREN] p)) (\<lambda>m p.
       if m then
         bindF (parseMethod pf n ParseExpression p) (\<lambda>expr p.
         bindF (Some (expect RPAREN ''Expected ')' after expression'' p)) (\<lambda>_ p.
           Some (Ok expr p)))
       else
     bindF (Some (field (peek p) (\<lambda>t. t) p)) (\<lambda>token p.
       Some (Throw (Error ''Expected expression'')
         (addError ''Expected expression'' (tk_position token) (Some ''expression'')
            (Some (typeName (tk_type token))) p)))))))"

abbreviation parseExpression ::
  "(string \<Rightarrow> 'n) \<Rightarrow> nat \<Rightarrow> 'n Parser \<Rightarrow> ('n ASTNode, 'n) res option" where
  "parseExpression pf n \<equiv> parseMethod pf n ParseExpression"

definition parseAssignment ::
  "(string \<Rightarrow> 'n) \<Rightarrow> nat \<Rightarrow> 'n Parser \<Rightarrow> ('n ASTNode, 'n) res option" where
  "parseAssignment pf n p =
     bindF (Some (advance p)) (\<lambda>nameToken p.
     bindF (Some (field nameToken tk_position p)) (\<lambda>position p.
     bindF (Some (advance p)) (\<lambda>_ p.
     bindF (parseExpression pf n p) (\<lambda>val p.
     bindF (Some (field nameToken tk_lexeme p)) (\<lambda>name p.
       Some (Ok (Assignment name val position) p))))))"

definition parseStatement ::
  "(string \<Rightarrow> 'n) \<Rightarrow> nat \<Rightarrow> 'n Parser \<Rightarrow> ('n ASTNode option, 'n) res option" where
  "parseStatement pf n p =
     bindF (Some (skipErrors p)) (\<lambda>_ p.
     bindF (Some (isAtEnd p)) (\<lambda>e p.
       if e then Some (Ok None p)
       else
         bindF (Some (check IDENTIFIER p)) (\<lambda>c p.
           if c \<and> (case lookAhead 1 p of None \<Rightarrow> False | Some t \<Rightarrow> tk_type t = EQUALS)
           then bindF (parseAssignment pf n p) (\<lambda>a p. Some (Ok (Some a) p))
           else bindF (parseExpression pf n p) (\<lambda>x p. Some (Ok (Some x) p)))))"

text \<open>
  The loop of \<open>parse\<close>. \<open>Inl\<close> is an exception that leaves \<open>parse\<close>: the loop
  condition is evaluated outside the \<open>try\<close> block.
\<close>

fun parseLoop ::
  "(string \<Rightarrow> 'n) \<Rightarrow> nat \<Rightarrow> 'n ASTNode list \<Rightarrow> 'n Parser \<Rightarrow> (exn + 'n ParseResult) option" where
  "parseLoop pf 0 statements p = None"
| "parseLoop pf (Suc n) statements p =
     (case isAtEnd p of
        Throw e p1 \<Rightarrow> Some (Inl e)
      | Ok atEnd p1 \<Rightarrow>
          if \<not> atEnd then
            (case parseStatement pf n p1 of
               None \<Rightarrow> None
             | Some (Throw e p2) \<Rightarrow>
                 Some (Inr \<lparr>pr_ast = statements, pr_errors = ps_errors p2\<rparr>)
             | Some (Ok stmt p2) \<Rightarrow>
                 parseLoop pf n
                   (case stmt of None \<Rightarrow> statements | Some s \<Rightarrow> statements @ [s]) p2)
          else Some (Inr \<lparr>pr_ast = statements, pr_errors = ps_errors p1\<rparr>))"

definition parse :: "(string \<Rightarrow> 'n) \<Rightarrow> nat \<Rightarrow> 'n Token list \<Rightarrow> (exn + 'n ParseResult) option" where
  "parse pf fuel tokens =
     parseLoop pf fuel [] \<lparr>ps_tokens = tokens, ps_current = 0, ps_errors = []\<rparr>"



section \<open>Semantic analyzer (semantic.ts)\<close>

record 'n SemanticResult =
  sr_symbolTable :: SymbolTable
  sr_annotatedAst :: "'n ASTNode list"
  sr_errors :: "CompilerError list"

record SemanticAnalyzer =
  sa_symbolTable :: SymbolTable
  sa_errors :: "CompilerError list"

fun getResolvedType :: "'n ASTNode \<Rightarrow> DataType option" where
  "getResolvedType (Assignment name val position) = getResolvedType val"
| "getResolvedType (BinaryExpr operator left right position resolvedType) = resolvedType"
| "getResolvedType (UnaryExpr operator operand position resolvedType) = resolvedType"
| "getResolvedType (Literal v dataType position resolvedType) = resolvedType"
| "getResolvedType (Variable name position resolvedType) = resolvedType"

definition addErrorS ::
  "string \<Rightarrow> Position \<Rightarrow> string option \<Rightarrow> SemanticAnalyzer \<Rightarrow> SemanticAnalyzer" where
  "addErrorS message position variableName st =
     st\<lparr>sa_errors := sa_errors st @
        [\<lparr>ce_phase = Semantic, ce_message = message, ce_position = position,
          ce_expected = None, ce_actual = None, ce_variableName = variableName\<rparr>]\<rparr>"

text \<open>
  \<open>analyzeNode\<close> dispatches on the kind of the node; each equation is the body of the
  method for that kind (\<open>analyzeAssignment\<close>, \<open>analyzeBinaryExpr\<close>, \<open>analyzeUnaryExpr\<close>,
  \<open>analyzeLiteral\<close>, \<open>analyzeVariable\<close>). The object spread \<open>{...node, ...}\<close> copies
  every field of the node that is not listed after it.
\<close>

fun analyzeNode :: "'n ASTNode \<Rightarrow> SemanticAnalyzer \<Rightarrow> 'n ASTNode \<times> SemanticAnalyzer" where
  "analyzeNode (Assignment name val position) st =
     (let (annotatedValue, st1) = analyzeNode val st;
          valueType = getResolvedType annotatedValue;
          st2 = (case valueType of
                   Some ty \<Rightarrow>
                     st1\<lparr>sa_symbolTable := (sa_symbolTable st1)
                        (name \<mapsto> \<lparr>se_name = name, se_type = ty, se_definedAt = position\<rparr>)\<rparr>
                 | None \<Rightarrow> st1)
      in (Assignment name annotatedValue position, st2))"
| "analyzeNode (BinaryExpr operator left right position resolvedType0) st =
     (let (annotatedLeft, st1) = analyzeNode left st;
          (annotatedRight, st2) = analyzeNode right st1;
          leftType = getResolvedType annotatedLeft;
          rightType = getResolvedType annotatedRight;
          resolvedType =
            (if leftType \<noteq> None \<and> rightType \<noteq> None then
               (if operator = ''/'' then Some Float
                else if leftType = Some Float \<or> rightType = Some Float then Some Float
                else Some Integer)
             else None)
      in (BinaryExpr operator annotatedLeft annotatedRight position resolvedType, st2))"
| "analyzeNode (UnaryExpr operator operand position resolvedType0) st =
     (let (annotatedOperand, st1) = analyzeNode operand st;
          operandType = getResolvedType annotatedOperand
      in (UnaryExpr operator annotatedOperand position operandType, st1))"
| "analyzeNode (Literal v dataType position resolvedType0) st =
     (Literal v dataType position (Some dataType), st)"
| "analyzeNode (Variable name position resolvedType0) st =
     (case sa_symbolTable st name of
        None \<Rightarrow>
          (Variable name position resolvedType0,
           addErrorS (''Undefined variable '' @ [CHR 0x27] @ name @ [CHR 0x27])
             position (Some name) st)
      | Some entry \<Rightarrow> (Variable name position (Some (se_type entry)), st))"

text \<open>The loop \<open>for (const node of ast)\<close> of \<open>analyze\<close>.\<close>

fun analyzeLoop ::
  "'n ASTNode list \<Rightarrow> 'n ASTNode list \<Rightarrow> SemanticAnalyzer
     \<Rightarrow> 'n ASTNode list \<times> SemanticAnalyzer" where
  "analyzeLoop [] annotatedAst st = (annotatedAst, st)"
| "analyzeLoop (node # rest) annotatedAst st =
     (let (annotated, st1) = analyzeNode node st
      in analyzeLoop rest (annotatedAst @ [annotated]) st1)"

definition analyze :: "'n ASTNode list \<Rightarrow> 'n SemanticResult" where
  "analyze ast =
     (let (annotatedAst, st) =
            analyzeLoop ast [] \<lparr>sa_symbolTable = Map.empty, sa_errors = []\<rparr>
      in \<lparr>sr_symbolTable = sa_symbolTable st, sr_annotatedAst = annotatedAst,
          sr_errors = sa_errors st\<rparr>)"


section \<open>Parser: syntax errors\<close>

definition errsOk :: "CompilerError list \<Rightarrow> ('a, 'n) res \<Rightarrow> bool" where
  "errsOk es r =
     (case r of
        Ok v p \<Rightarrow> ps_errors p = es
      | Throw e p \<Rightarrow> length (ps_errors p) \<le> Suc (length es))"

definition errsOkF :: "CompilerError list \<Rightarrow> ('a, 'n) res option \<Rightarrow> bool" where
  "errsOkF es r = (case r of None \<Rightarrow> True | Some x \<Rightarrow> errsOk es x)"

lemma errsOk_Ok [simp]: "errsOk es (Ok v p) = (ps_errors p = es)"
  by (simp add: errsOk_def)

lemma errsOk_Throw [simp]: "errsOk es (Throw e p) = (length (ps_errors p) \<le> Suc (length es))"
  by (simp add: errsOk_def)

lemma errsOkF_None [simp]: "errsOkF es None"
  by (simp add: errsOkF_def)

lemma errsOkF_Some [simp]: "errsOkF es (Some x) = errsOk es x"
  by (simp add: errsOkF_def)

lemma errsOk_bindR:
  assumes "errsOk es r" and "\<And>v p. ps_errors p = es \<Longrightarrow> errsOk es (f v p)"
  shows "errsOk es (bindR r f)"
  using assms by (cases r) (simp_all add: bindR_def)

lemma errsOkF_bindF:
  assumes "errsOkF es r" and "\<And>v p. ps_errors p = es \<Longrightarrow> errsOkF es (f v p)"
  shows "errsOkF es (bindF r f)"
proof (cases r)
  case None
  then show ?thesis by (simp add: bindF_def)
next
  case (Some x)
  with assms show ?thesis by (cases x) (simp_all add: bindF_def)
qed

lemma errsOk_field: "ps_errors p = es \<Longrightarrow> errsOk es (field obj sel p)"
  by (cases obj) (simp_all add: field_def)

lemma errsOk_isAtEnd: "ps_errors p = es \<Longrightarrow> errsOk es (isAtEnd p)"
  by (simp add: isAtEnd_def errsOk_field)

lemma errsOk_advance: "ps_errors p = es \<Longrightarrow> errsOk es (advance p)"
  unfolding advance_def
  by (rule errsOk_bindR) (simp_all add: errsOk_isAtEnd Let_def)

lemma errsOk_check: "ps_errors p = es \<Longrightarrow> errsOk es (check ty p)"
  unfolding check_def
  by (rule errsOk_bindR) (simp_all add: errsOk_isAtEnd errsOk_field)

lemma errsOk_match: "ps_errors p = es \<Longrightarrow> errsOk es (match tys p)"
proof (induction tys arbitrary: p)
  case Nil
  then show ?case by simp
next
  case (Cons ty tys)
  show ?case
    unfolding match.simps
  proof (rule errsOk_bindR)
    show "errsOk es (check ty p)" using Cons.prems by (rule errsOk_check)
  next
    fix c and p1 :: "'a Parser"
    assume e: "ps_errors p1 = es"
    show "errsOk es (if c then bindR (advance p1) (\<lambda>_ p. Ok True p) else match tys p1)"
    proof (cases c)
      case True
      have "errsOk es (bindR (advance p1) (\<lambda>_ p. Ok True p))"
        by (rule errsOk_bindR) (simp_all add: errsOk_advance e)
      with True show ?thesis by simp
    next
      case False
      with Cons.IH [OF e] show ?thesis by simp
    qed
  qed
qed

lemma errsOk_expect: "ps_errors p = es \<Longrightarrow> errsOk es (expect ty msg p)"
  unfolding expect_def
  apply (rule errsOk_bindR)
   apply (erule errsOk_check)
  apply (simp add: errsOk_advance)
  apply (rule impI)
  apply (rule errsOk_bindR)
   apply (erule errsOk_field)
  apply (simp add: addError_def)
  done

lemma errsOk_skipErrors: "ps_errors p = es \<Longrightarrow> errsOk es (skipErrors p)"
proof (induction p rule: skipErrors.induct)
  case (1 p)
  have c: "errsOk es (check ERROR p)" using "1.prems" by (rule errsOk_check)
  show ?case
  proof (cases "check ERROR p")
    case (Throw e p1)
    with c show ?thesis by (subst skipErrors.simps) simp
  next
    case (Ok b p1)
    with c have e1: "ps_errors p1 = es" by simp
    show ?thesis
    proof (cases b)
      case False
      with Ok e1 show ?thesis by (subst skipErrors.simps) simp
    next
      case True
      have a: "errsOk es (advance p1)" using e1 by (rule errsOk_advance)
      show ?thesis
      proof (cases "advance p1")
        case (Throw e p2)
        with a Ok True show ?thesis by (subst skipErrors.simps) simp
      next
        case adv: (Ok t p2)
        with a have e2: "ps_errors p2 = es" by simp
        from "1.IH" [OF Ok True adv e2] Ok True adv show ?thesis
          by (subst skipErrors.simps) simp
      qed
    qed
  qed
qed

lemma errsOk_createLiteralNode:
  "ps_errors p = es \<Longrightarrow> errsOk es (createLiteralNode pf tok dt p)"
  by (cases tok) (simp_all add: createLiteralNode_def)

lemma errsOk_createVariableNode:
  "ps_errors p = es \<Longrightarrow> errsOk es (createVariableNode tok p)"
  by (cases tok) (simp_all add: createVariableNode_def)

lemma errsOkF_if:
  "(c \<Longrightarrow> errsOkF es a) \<Longrightarrow> (\<not> c \<Longrightarrow> errsOkF es b) \<Longrightarrow> errsOkF es (if c then a else b)"
  by simp

lemmas errsOk_prims = errsOk_field errsOk_isAtEnd errsOk_advance errsOk_check errsOk_match
  errsOk_expect errsOk_skipErrors errsOk_createLiteralNode errsOk_createVariableNode

lemma errsOkF_parseMethod:
  "ps_errors p = es \<Longrightarrow> errsOkF es (parseMethod pf n m p)"
proof (induction n arbitrary: m p es)
  case 0
  then show ?case by simp
next
  case (Suc n)
  note IH = Suc.IH
  show ?case
    by (cases m)
       (auto intro!: errsOkF_bindF errsOkF_if IH
          simp: Suc.prems errsOk_prims addError_def simp del: match.simps)
qed


lemma errsOkF_parseAssignment:
  "ps_errors p = es \<Longrightarrow> errsOkF es (parseAssignment pf n p)"
  unfolding parseAssignment_def
  by (auto intro!: errsOkF_bindF errsOkF_parseMethod simp: errsOk_prims)

lemma errsOkF_parseStatement:
  "ps_errors p = es \<Longrightarrow> errsOkF es (parseStatement pf n p)"
  unfolding parseStatement_def
  by (auto intro!: errsOkF_bindF errsOkF_if errsOkF_parseMethod errsOkF_parseAssignment
      simp: errsOk_prims)

lemma isAtEnd_Ok_state: "isAtEnd p = Ok b p' \<Longrightarrow> p' = p"
  by (auto simp: isAtEnd_def field_def split: option.splits)

lemma parseLoop_errors:
  "parseLoop pf n statements p = Some (Inr r) \<Longrightarrow> ps_errors p = [] \<Longrightarrow>
     length (pr_errors r) \<le> 1"
proof (induction n arbitrary: statements p)
  case 0
  then show ?case by simp
next
  case (Suc n)
  show ?case
  proof (cases "isAtEnd p")
    case (Throw e p1)
    with Suc.prems show ?thesis by simp
  next
    case (Ok atEnd p1)
    then have p1: "p1 = p" by (rule isAtEnd_Ok_state)
    show ?thesis
    proof (cases atEnd)
      case True
      with Ok p1 Suc.prems show ?thesis by auto
    next
      case False
      have inv: "errsOkF [] (parseStatement pf n p)"
        using Suc.prems(2) by (rule errsOkF_parseStatement)
      show ?thesis
      proof (cases "parseStatement pf n p")
        case None
        with Ok p1 False Suc.prems show ?thesis by simp
      next
        case (Some x)
        show ?thesis
        proof (cases x)
          case (Throw e p2)
          with inv Some have "length (ps_errors p2) \<le> 1" by simp
          with Throw Some Ok p1 False Suc.prems show ?thesis by auto
        next
          case ok2: (Ok stmt p2)
          with inv Some have e2: "ps_errors p2 = []" by simp
          from ok2 Some Ok p1 False Suc.prems(1)
          have "parseLoop pf n
                  (case stmt of None \<Rightarrow> statements | Some s \<Rightarrow> statements @ [s]) p2
                = Some (Inr r)"
            by simp
          from Suc.IH [OF this e2] show ?thesis .
        qed
      qed
    qed
  qed
qed

section \<open>Parser: termination\<close>

definition remaining :: "'n Parser \<Rightarrow> nat" where
  "remaining p = length (ps_tokens p) - ps_current p"

definition postR :: "('a, 'n) res \<Rightarrow> ('a \<Rightarrow> 'n Parser \<Rightarrow> bool) \<Rightarrow> bool" where
  "postR r Q = (case r of Ok v p \<Rightarrow> Q v p | Throw e p \<Rightarrow> True)"

definition postF :: "('a, 'n) res option \<Rightarrow> ('a \<Rightarrow> 'n Parser \<Rightarrow> bool) \<Rightarrow> bool" where
  "postF r Q = (case r of None \<Rightarrow> False | Some x \<Rightarrow> postR x Q)"

lemma postR_Ok [simp]: "postR (Ok v p) Q = Q v p"
  by (simp add: postR_def)

lemma postR_Throw [simp]: "postR (Throw e p) Q"
  by (simp add: postR_def)

lemma postF_None [simp]: "\<not> postF None Q"
  by (simp add: postF_def)

lemma postF_Some [simp]: "postF (Some x) Q = postR x Q"
  by (simp add: postF_def)

lemma postR_bindR [simp]: "postR (bindR r f) Q = postR r (\<lambda>v p. postR (f v p) Q)"
  by (cases r) (simp_all add: bindR_def)

lemma postF_bindF [simp]: "postF (bindF r f) Q = postF r (\<lambda>v p. postF (f v p) Q)"
proof (cases r)
  case None
  then show ?thesis by (simp add: bindF_def)
next
  case (Some x)
  then show ?thesis by (cases x) (simp_all add: bindF_def)
qed

lemma postR_mono: "postR r Q' \<Longrightarrow> (\<And>v p. Q' v p \<Longrightarrow> Q v p) \<Longrightarrow> postR r Q"
  by (cases r) simp_all

lemma postF_mono: "postF r Q' \<Longrightarrow> (\<And>v p. Q' v p \<Longrightarrow> Q v p) \<Longrightarrow> postF r Q"
  by (cases r) (auto intro: postR_mono)

lemma postR_field [simp]: "postR (field obj sel p) Q = (\<forall>x. obj = Some x \<longrightarrow> Q (sel x) p)"
  by (cases obj) (simp_all add: field_def)

lemma peek_Some_remaining: "peek p = Some t \<Longrightarrow> 0 < remaining p"
  by (simp add: peek_def elemAt_def remaining_def split: if_splits)

lemma postR_isAtEnd:
  "(\<And>b. 0 < remaining p \<Longrightarrow> Q b p) \<Longrightarrow> postR (isAtEnd p) Q"
  by (auto simp: isAtEnd_def dest: peek_Some_remaining)

lemma postR_check:
  "(\<And>b. 0 < remaining p \<Longrightarrow> Q b p) \<Longrightarrow> postR (check ty p) Q"
  unfolding check_def
  by (simp, rule postR_isAtEnd) auto

lemma postR_advance:
  "(\<And>t p'. 0 < remaining p \<Longrightarrow> remaining p' \<le> remaining p \<Longrightarrow> Q t p') \<Longrightarrow>
     postR (advance p) Q"
  unfolding advance_def
  by (simp, rule postR_isAtEnd) (auto simp: Let_def remaining_def)

lemma check_True_advance:
  "check ty p = Ok True p1 \<Longrightarrow> advance p1 = Ok t p2 \<Longrightarrow> remaining p2 < remaining p"
  by (auto simp: check_def advance_def isAtEnd_def field_def bindR_def peek_def elemAt_def
      Let_def remaining_def split: option.splits if_splits)

lemma check_Ok: "check ty p = Ok b p1 \<Longrightarrow> p1 = p \<and> 0 < remaining p"
  by (auto simp: check_def isAtEnd_def field_def bindR_def peek_def elemAt_def
      remaining_def split: option.splits if_splits)

lemma match_Ok:
  "match tys p = Ok b p' \<Longrightarrow>
     (if b then remaining p' < remaining p else p' = p \<and> (tys \<noteq> [] \<longrightarrow> 0 < remaining p))"
proof (induction tys)
  case Nil
  then show ?case by simp
next
  case (Cons ty tys)
  show ?case
  proof (cases "check ty p")
    case (Throw e p1)
    with Cons.prems show ?thesis by (simp add: bindR_def)
  next
    case (Ok c p1)
    then have p1: "p1 = p" and r: "0 < remaining p" using check_Ok by blast+
    show ?thesis
    proof (cases c)
      case True
      show ?thesis
      proof (cases "advance p")
        case (Throw e p2)
        with Cons.prems Ok p1 True show ?thesis by (simp add: bindR_def)
      next
        case adv: (Ok t p2)
        from Ok True p1 have "check ty p = Ok True p" by simp
        from check_True_advance [OF this adv] have "remaining p2 < remaining p" .
        with Cons.prems Ok p1 True adv show ?thesis by (auto simp: bindR_def)
      qed
    next
      case False
      with Cons.prems Ok p1 have "match tys p = Ok b p'" by (simp add: bindR_def)
      from Cons.IH [OF this] r show ?thesis by (auto split: if_splits)
    qed
  qed
qed

lemma postR_match:
  assumes "\<And>p'. remaining p' < remaining p \<Longrightarrow> Q True p'"
    and "(tys \<noteq> [] \<longrightarrow> 0 < remaining p) \<Longrightarrow> Q False p"
  shows "postR (match tys p) Q"
proof (cases "match tys p")
  case (Throw e p')
  then show ?thesis by simp
next
  case (Ok b p')
  from match_Ok [OF Ok] assms Ok show ?thesis by (cases b) auto
qed

lemma postR_expect:
  assumes "\<And>t p'. remaining p' < remaining p \<Longrightarrow> Q t p'"
  shows "postR (expect ty msg p) Q"
proof (cases "check ty p")
  case (Throw e p1)
  then show ?thesis by (simp add: expect_def bindR_def)
next
  case (Ok c p1)
  then have p1: "p1 = p" using check_Ok by blast
  show ?thesis
  proof (cases c)
    case False
    with Ok p1 show ?thesis by (simp add: expect_def bindR_def field_def split: option.splits)
  next
    case True
    show ?thesis
    proof (cases "advance p")
      case (Throw e p2)
      with Ok p1 True show ?thesis by (simp add: expect_def bindR_def)
    next
      case adv: (Ok t p2)
      from Ok True p1 have "check ty p = Ok True p" by simp
      from check_True_advance [OF this adv] have "remaining p2 < remaining p" .
      with assms Ok p1 True adv show ?thesis by (simp add: expect_def bindR_def)
    qed
  qed
qed

lemma postR_skipErrors:
  assumes "\<And>p'. remaining p' \<le> remaining p \<Longrightarrow> Q () p'"
  shows "postR (skipErrors p) Q"
proof -
  have "postR (skipErrors p) (\<lambda>u p'. remaining p' \<le> remaining p)"
  proof (induction p rule: skipErrors.induct)
    case (1 p)
    show ?case
    proof (cases "check ERROR p")
      case (Throw e p1)
      then show ?thesis by (subst skipErrors.simps) simp
    next
      case (Ok c p1)
      then have p1: "p1 = p" using check_Ok by blast
      show ?thesis
      proof (cases c)
        case False
        with Ok p1 show ?thesis by (subst skipErrors.simps) simp
      next
        case True
        show ?thesis
        proof (cases "advance p1")
          case (Throw e p2)
          with Ok True show ?thesis by (subst skipErrors.simps) simp
        next
          case adv: (Ok t p2)
          from Ok True have "check ERROR p = Ok True p1" by simp
          from check_True_advance [OF this adv] have lt: "remaining p2 < remaining p" .
          have "postR (skipErrors p2) (\<lambda>u p'. remaining p' \<le> remaining p2)"
            using "1.IH" [OF Ok True adv] .
          then have "postR (skipErrors p2) (\<lambda>u p'. remaining p' \<le> remaining p)"
            by (rule postR_mono) (use lt in simp)
          with Ok True adv show ?thesis by (subst skipErrors.simps) simp
        qed
      qed
    qed
  qed
  then show ?thesis by (rule postR_mono) (use assms in simp)
qed

lemma postR_createLiteralNode [simp]:
  "postR (createLiteralNode pf tok dt p) Q =
     (\<forall>t. tok = Some t \<longrightarrow>
        Q (Literal (case tk_literal t of Some v \<Rightarrow> v | None \<Rightarrow> pf (tk_lexeme t)) dt
             (tk_position t) None) p)"
  by (cases tok) (simp_all add: createLiteralNode_def)

lemma postR_createVariableNode [simp]:
  "postR (createVariableNode tok p) Q =
     (\<forall>t. tok = Some t \<longrightarrow> Q (Variable (tk_lexeme t) (tk_position t) None) p)"
  by (cases tok) (simp_all add: createVariableNode_def)

fun rank :: "'n parserMethod \<Rightarrow> nat" where
  "rank ParsePrimary = 1"
| "rank ParseUnary = 2"
| "rank ParsePower = 3"
| "rank (MultiplicativeLoop left) = 1"
| "rank ParseMultiplicative = 4"
| "rank (AdditiveLoop left) = 1"
| "rank ParseAdditive = 5"
| "rank ParseExpression = 6"

text \<open>
  What a successful call leaves of the input: a loop may consume nothing, every other
  method consumes a token; all but \<open>parsePrimary\<close> and \<open>parseUnary\<close> end on a
  successful look at the current token, which is therefore in range.
\<close>

fun methodPost :: "'n parserMethod \<Rightarrow> 'n Parser \<Rightarrow> 'n Parser \<Rightarrow> bool" where
  "methodPost ParsePrimary p p' = (remaining p' < remaining p)"
| "methodPost ParseUnary p p' = (remaining p' < remaining p)"
| "methodPost (MultiplicativeLoop left) p p' = (remaining p' \<le> remaining p \<and> 0 < remaining p')"
| "methodPost (AdditiveLoop left) p p' = (remaining p' \<le> remaining p \<and> 0 < remaining p')"
| "methodPost m p p' = (remaining p' < remaining p \<and> 0 < remaining p')"

lemma postF_parseMethod:
  "6 * remaining p + rank m \<le> n \<Longrightarrow>
     postF (parseMethod pf n m p) (\<lambda>v p'. methodPost m p p')"
proof (induction n arbitrary: m p)
  case 0
  then show ?case by (cases m) simp_all
next
  case (Suc n)
  have IH: "postF (parseMethod pf n m' q) Q"
    if "6 * remaining q + rank m' \<le> n" and "\<And>v q'. methodPost m' q q' \<Longrightarrow> Q v q'"
    for m' q Q
    using Suc.IH [OF that(1)] that(2) by (rule postF_mono)
  show ?case
    using Suc.prems
    by (cases m)
       (auto intro!: IH postR_match postR_expect simp del: match.simps)
qed


lemma postR_isAtEnd_eq:
  "(\<And>b. isAtEnd p = Ok b p \<Longrightarrow> 0 < remaining p \<Longrightarrow> Q b p) \<Longrightarrow> postR (isAtEnd p) Q"
  by (cases "isAtEnd p") (auto dest: isAtEnd_Ok_state simp: isAtEnd_def field_def
      dest!: peek_Some_remaining split: option.splits)

lemma postF_parseAssignment:
  "6 * remaining p + 6 \<le> n \<Longrightarrow>
     postF (parseAssignment pf n p) (\<lambda>v p'. remaining p' < remaining p \<and> 0 < remaining p')"
  unfolding parseAssignment_def
  apply simp
  apply (rule postR_advance)
  apply clarsimp
  apply (rule postR_advance)
  apply (rule postF_mono)
   apply (rule postF_parseMethod)
   apply simp
  apply auto
  done

lemma postF_parseStatement:
  "6 * remaining p + 6 \<le> n \<Longrightarrow>
     postF (parseStatement pf n p)
       (\<lambda>stmt p'. 0 < remaining p' \<and>
          (case stmt of None \<Rightarrow> isAtEnd p' = Ok True p' | Some s \<Rightarrow> remaining p' < remaining p))"
  unfolding parseStatement_def
  apply simp
  apply (rule postR_skipErrors)
  apply (rule postR_isAtEnd_eq)
  apply (simp only: split: if_split)
  apply (intro conjI impI)
   apply simp
  apply simp
  apply (rule postR_check)
  apply (simp only: split: if_split)
  apply (intro conjI impI)
   apply simp
   apply (rule postF_mono)
    apply (rule postF_parseAssignment)
    apply simp
   apply simp
  apply simp
  apply (rule postF_mono)
   apply (rule postF_parseMethod)
   apply simp
  apply simp
  done

lemma isAtEnd_cases:
  "isAtEnd p = (if 0 < remaining p then Ok (tk_type (ps_tokens p ! ps_current p) = EOF) p
                else Throw TypeError p)"
  by (simp add: isAtEnd_def field_def peek_def elemAt_def remaining_def)

lemma parseLoop_returns:
  "7 * remaining p + 8 \<le> n \<Longrightarrow> 0 < remaining p \<Longrightarrow>
     \<exists>res. parseLoop pf n statements p = Some (Inr res)"
proof (induction n arbitrary: statements p)
  case 0
  then show ?case by simp
next
  case (Suc n)
  let ?b = "tk_type (ps_tokens p ! ps_current p) = EOF"
  from Suc.prems(2) have ae: "isAtEnd p = Ok ?b p" by (simp add: isAtEnd_cases)
  show ?case
  proof (cases ?b)
    case True
    with ae show ?thesis by simp
  next
    case False
    from Suc.prems(1) have "6 * remaining p + 6 \<le> n" by simp
    from postF_parseStatement [OF this, of pf]
    obtain x where x: "parseStatement pf n p = Some x"
      and post: "postR x (\<lambda>stmt p'. 0 < remaining p' \<and>
          (case stmt of None \<Rightarrow> isAtEnd p' = Ok True p' | Some s \<Rightarrow> remaining p' < remaining p))"
      by (cases "parseStatement pf n p") auto
    show ?thesis
    proof (cases x)
      case (Throw e p2)
      with ae False x show ?thesis by simp
    next
      case (Ok stmt p2)
      with post have r2: "0 < remaining p2" by simp
      show ?thesis
      proof (cases stmt)
        case None
        with Ok post have e2: "isAtEnd p2 = Ok True p2" by simp
        from Suc.prems(1) obtain k where k: "n = Suc k" by (cases n) auto
        from e2 k have "parseLoop pf n statements p2
            = Some (Inr \<lparr>pr_ast = statements, pr_errors = ps_errors p2\<rparr>)"
          by simp
        with ae False x Ok None show ?thesis by simp
      next
        case (Some s)
        with Ok post have "remaining p2 < remaining p" by simp
        with Suc.prems(1) have "7 * remaining p2 + 8 \<le> n" by simp
        from Suc.IH [OF this r2, of "statements @ [s]"]
        obtain res where "parseLoop pf n (statements @ [s]) p2 = Some (Inr res)" by blast
        with ae False x Ok Some show ?thesis by simp
      qed
    qed
  qed
qed

section \<open>Parser: more fuel changes nothing\<close>

definition leF :: "'a option \<Rightarrow> 'a option \<Rightarrow> bool" where
  "leF a b = (a = None \<or> a = b)"

lemma leF_refl [simp]: "leF a a"
  by (simp add: leF_def)

lemma leF_None [simp]: "leF None b"
  by (simp add: leF_def)

lemma leF_bindF:
  "leF r r' \<Longrightarrow> (\<And>v p. leF (f v p) (f' v p)) \<Longrightarrow> leF (bindF r f) (bindF r' f')"
  by (auto simp: leF_def bindF_def split: option.splits res.splits)

lemma leF_if:
  "(c \<Longrightarrow> leF a a') \<Longrightarrow> (\<not> c \<Longrightarrow> leF b b') \<Longrightarrow>
     leF (if c then a else b) (if c then a' else b')"
  by simp

lemma parseMethod_step:
  assumes IH: "\<And>m p. leF (parseMethod pf n m p) (parseMethod pf k m p)"
  shows "leF (parseMethod pf (Suc n) m p) (parseMethod pf (Suc k) m p)"
  by (cases m) (auto intro!: leF_bindF leF_if IH simp del: match.simps)

lemma parseMethod_Suc: "leF (parseMethod pf n m p) (parseMethod pf (Suc n) m p)"
proof (induction n arbitrary: m p)
  case 0
  show ?case by simp
next
  case (Suc n)
  show ?case by (rule parseMethod_step) (rule Suc.IH)
qed

lemma parseMethod_mono:
  "parseMethod pf n m p = Some r \<Longrightarrow> parseMethod pf (n + k) m p = Some r"
proof (induction k)
  case 0
  then show ?case by simp
next
  case (Suc k)
  with parseMethod_Suc [of pf "n + k" m p] show ?case by (simp add: leF_def)
qed

lemma parseStatement_Suc: "leF (parseStatement pf n p) (parseStatement pf (Suc n) p)"
  unfolding parseStatement_def parseAssignment_def
  by (intro leF_bindF leF_if leF_refl parseMethod_Suc)

lemma parseLoop_Suc: "leF (parseLoop pf n statements p) (parseLoop pf (Suc n) statements p)"
proof (induction n arbitrary: statements p)
  case 0
  show ?case by simp
next
  case (Suc n)
  show ?case
  proof (cases "isAtEnd p")
    case (Throw e p1)
    then show ?thesis by simp
  next
    case (Ok atEnd p1)
    show ?thesis
    proof (cases atEnd)
      case True
      with Ok show ?thesis by simp
    next
      case False
      show ?thesis
      proof (cases "parseStatement pf n p1")
        case None
        with Ok False show ?thesis by simp
      next
        case (Some x)
        with parseStatement_Suc [of pf n p1]
        have s: "parseStatement pf (Suc n) p1 = Some x" by (simp add: leF_def)
        show ?thesis
        proof (cases x)
          case (Throw e p2)
          with Ok False Some s show ?thesis by simp
        next
          case ok2: (Ok stmt p2)
          with Ok False Some s Suc.IH show ?thesis by simp
        qed
      qed
    qed
  qed
qed

lemma parse_mono: "parse pf n tokens = Some r \<Longrightarrow> parse pf (n + k) tokens = Some r"
proof (induction k)
  case 0
  then show ?case by simp
next
  case (Suc k)
  with parseLoop_Suc [of pf "n + k" "[]" "\<lparr>ps_tokens = tokens, ps_current = 0, ps_errors = []\<rparr>"]
  show ?case by (simp add: leF_def parse_def)
qed


section \<open>A reading of decimal lexemes\<close>

text \<open>
  \<open>parseFloat\<close> is a parameter of the model. For closed examples it is instantiated
  with \<open>decimalValue\<close>, the exact value of an unsigned decimal lexeme (digits,
  optionally followed by a point and digits), which is what \<open>parseFloat\<close> returns on
  the lexemes of the lexer up to floating-point rounding.
\<close>

definition digitValue :: "char \<Rightarrow> nat" where
  "digitValue c = of_char c - of_char CHR ''0''"

definition digitsValue :: "string \<Rightarrow> nat" where
  "digitsValue s = foldl (\<lambda>acc c. 10 * acc + digitValue c) 0 s"

definition decimalValue :: "string \<Rightarrow> rat" where
  "decimalValue s =
     (let ip = takeWhile isDigit s;
          rest = dropWhile isDigit s;
          fp = (case rest of [] \<Rightarrow> [] | c # cs \<Rightarrow> if c = CHR ''.'' then takeWhile isDigit cs else [])
      in of_nat (digitsValue ip) + of_nat (digitsValue fp) / 10 ^ length fp)"

section \<open>The claims\<close>

text \<open>
  C3. For every token sequence the list of errors returned by \<open>parse\<close> has at most one
  element. Whenever \<open>parse\<close> returns a result its error list has length 0 or 1, and with
  fuel \<open>7 * length tokens + 8\<close> or more it does return: a result for a non-empty token
  array, and on the empty array the TypeError of reading \<open>type\<close> of the missing first
  token, which leaves \<open>parse\<close> before any result exists.
\<close>

theorem C3_parse_at_most_one_error:
  "(parse pf fuel tokens = Some (Inr r) \<longrightarrow> length (pr_errors r) \<le> 1) \<and>
   (7 * length tokens + 8 \<le> fuel \<longrightarrow>
      (if tokens = [] then parse pf fuel tokens = Some (Inl TypeError)
       else \<exists>r'. parse pf fuel tokens = Some (Inr r') \<and> length (pr_errors r') \<le> 1))"
proof (intro conjI impI)
  assume "parse pf fuel tokens = Some (Inr r)"
  then have "parseLoop pf fuel [] \<lparr>ps_tokens = tokens, ps_current = 0, ps_errors = []\<rparr>
      = Some (Inr r)"
    by (simp add: parse_def)
  from parseLoop_errors [OF this] show "length (pr_errors r) \<le> 1" by simp
next
  assume fuel: "7 * length tokens + 8 \<le> fuel"
  show "if tokens = [] then parse pf fuel tokens = Some (Inl TypeError)
        else \<exists>r'. parse pf fuel tokens = Some (Inr r') \<and> length (pr_errors r') \<le> 1"
  proof (cases "tokens = []")
    case True
    from fuel obtain k where "fuel = Suc k" by (cases fuel) auto
    with True show ?thesis by (simp add: parse_def isAtEnd_cases remaining_def)
  next
    case False
    let ?p = "\<lparr>ps_tokens = tokens, ps_current = 0, ps_errors = []\<rparr>"
    from fuel have f: "7 * remaining ?p + 8 \<le> fuel" by (simp add: remaining_def)
    from False have r: "0 < remaining ?p" by (simp add: remaining_def)
    from parseLoop_returns [OF f r, of pf "[]"]
    obtain res where res: "parseLoop pf fuel [] ?p = Some (Inr res)" by blast
    from parseLoop_errors [OF res] have "length (pr_errors res) \<le> 1" by simp
    with res False show ?thesis by (simp add: parse_def)
  qed
qed

theorem C3_parse_at_most_one_error_witness:
  "7 * length (tokenize decimalValue ''(1 + 2'') + 8 \<le> (50::nat) \<and>
   tokenize decimalValue ''(1 + 2'' \<noteq> [] \<and>
   (\<exists>r. parse decimalValue 50 (tokenize decimalValue ''(1 + 2'') = Some (Inr r) \<and>
        length (pr_errors r) \<le> 1)"
proof -
  have a: "7 * length (tokenize decimalValue ''(1 + 2'') + 8 \<le> (50::nat)"
    by code_simp
  have b: "tokenize decimalValue ''(1 + 2'' \<noteq> []"
    by code_simp
  from a b C3_parse_at_most_one_error
    [of decimalValue 50 "tokenize decimalValue ''(1 + 2''" "\<lparr>pr_ast = [], pr_errors = []\<rparr>"]
  show ?thesis by simp
qed

section \<open>Semantic analyzer: auxiliary notions\<close>

text \<open>An expression in the parser's sense: a tree without Assignment nodes.\<close>

fun isExpression :: "'n ASTNode \<Rightarrow> bool" where
  "isExpression (Assignment name val position) = False"
| "isExpression (BinaryExpr operator left right position resolvedType) =
     (isExpression left \<and> isExpression right)"
| "isExpression (UnaryExpr operator operand position resolvedType) = isExpression operand"
| "isExpression (Literal v dataType position resolvedType) = True"
| "isExpression (Variable name position resolvedType) = True"

text \<open>
  The occurrences of Variable nodes that are undefined when the traversal reaches them,
  in the order of the traversal (left operand before right operand, the symbol table
  being the one left by everything analyzed before), and the error reported for one.
\<close>

fun undefinedRefs :: "'n ASTNode \<Rightarrow> SemanticAnalyzer \<Rightarrow> (string \<times> Position) list" where
  "undefinedRefs (Assignment name val position) st = undefinedRefs val st"
| "undefinedRefs (BinaryExpr operator left right position resolvedType) st =
     undefinedRefs left st @ undefinedRefs right (snd (analyzeNode left st))"
| "undefinedRefs (UnaryExpr operator operand position resolvedType) st =
     undefinedRefs operand st"
| "undefinedRefs (Literal v dataType position resolvedType) st = []"
| "undefinedRefs (Variable name position resolvedType) st =
     (if sa_symbolTable st name = None then [(name, position)] else [])"

fun undefinedRefsOfList :: "'n ASTNode list \<Rightarrow> SemanticAnalyzer \<Rightarrow> (string \<times> Position) list" where
  "undefinedRefsOfList [] st = []"
| "undefinedRefsOfList (node # rest) st =
     undefinedRefs node st @ undefinedRefsOfList rest (snd (analyzeNode node st))"

definition undefinedError :: "string \<times> Position \<Rightarrow> CompilerError" where
  "undefinedError ref =
     \<lparr>ce_phase = Semantic,
      ce_message = ''Undefined variable '' @ [CHR 0x27] @ fst ref @ [CHR 0x27],
      ce_position = snd ref, ce_expected = None, ce_actual = None,
      ce_variableName = Some (fst ref)\<rparr>"

text \<open>All Variable nodes of a tree, from left to right.\<close>

fun variablesOf :: "'n ASTNode \<Rightarrow> (string \<times> Position) list" where
  "variablesOf (Assignment name val position) = variablesOf val"
| "variablesOf (BinaryExpr operator left right position resolvedType) =
     variablesOf left @ variablesOf right"
| "variablesOf (UnaryExpr operator operand position resolvedType) = variablesOf operand"
| "variablesOf (Literal v dataType position resolvedType) = []"
| "variablesOf (Variable name position resolvedType) = [(name, position)]"

lemma analyzeNode_expression_symbolTable:
  "isExpression e \<Longrightarrow> sa_symbolTable (snd (analyzeNode e st)) = sa_symbolTable st"
  by (induction e arbitrary: st)
     (auto simp: Let_def case_prod_beta addErrorS_def split: option.splits)

lemma analyzeNode_errors:
  "sa_errors (snd (analyzeNode node st)) = sa_errors st @ map undefinedError (undefinedRefs node st)"
  by (induction node arbitrary: st)
     (auto simp: Let_def case_prod_beta addErrorS_def undefinedError_def split: option.splits)

lemma undefinedRefs_expression:
  "isExpression e \<Longrightarrow>
     undefinedRefs e st = filter (\<lambda>ref. sa_symbolTable st (fst ref) = None) (variablesOf e)"
  by (induction e arbitrary: st) (auto simp: analyzeNode_expression_symbolTable)

lemma analyzeLoop_errors:
  "sa_errors (snd (analyzeLoop ast acc st)) =
     sa_errors st @ map undefinedError (undefinedRefsOfList ast st)"
  by (induction ast arbitrary: acc st)
     (auto simp: analyzeNode_errors case_prod_beta)

lemma analyzeLoop_length:
  "length (fst (analyzeLoop ast acc st)) = length acc + length ast"
  by (induction ast arbitrary: acc st) (auto simp: case_prod_beta)


section \<open>Evaluated examples\<close>

lemma parse_4_div_2:
  "parse (pf :: string \<Rightarrow> 'm::equal) 40 (tokenize pf ''4 / 2'') =
     Some (Inr \<lparr>pr_ast =
       [BinaryExpr ''/'' (Literal (pf ''4'') Integer \<lparr>line = 1, column = 1\<rparr> None)
          (Literal (pf ''2'') Integer \<lparr>line = 1, column = 5\<rparr> None)
          \<lparr>line = 1, column = 3\<rparr> None],
       pr_errors = []\<rparr>)"
  by code_simp

lemma parse_x_5_x_314:
  "parse (pf :: string \<Rightarrow> 'm::equal) 40 (tokenize pf (''x = 5'' @ [CHR 0x0A] @ ''x = 3.14'')) =
     Some (Inr \<lparr>pr_ast =
       [Assignment ''x'' (Literal (pf ''5'') Integer \<lparr>line = 1, column = 5\<rparr> None)
          \<lparr>line = 1, column = 1\<rparr>,
        Assignment ''x'' (Literal (pf ''3.14'') Float \<lparr>line = 2, column = 5\<rparr> None)
          \<lparr>line = 2, column = 1\<rparr>],
       pr_errors = []\<rparr>)"
  by code_simp

lemma parse_y_x_1:
  "parse (pf :: string \<Rightarrow> 'm::equal) 40 (tokenize pf ''y = x + 1'') =
     Some (Inr \<lparr>pr_ast =
       [Assignment ''y''
          (BinaryExpr ''+'' (Variable ''x'' \<lparr>line = 1, column = 5\<rparr> None)
             (Literal (pf ''1'') Integer \<lparr>line = 1, column = 9\<rparr> None)
             \<lparr>line = 1, column = 7\<rparr> None)
          \<lparr>line = 1, column = 1\<rparr>],
       pr_errors = []\<rparr>)"
  by code_simp

text \<open>
  C1. For a BinaryExpr node whose two operands resolved to types \<open>lt\<close> and \<open>rt\<close>,
  \<open>analyze\<close> sets \<open>resolvedType\<close> to Float when the operator is \<open>/\<close>, and otherwise
  to Float when \<open>lt\<close> or \<open>rt\<close> is Float and to Integer when both are Integer. The
  program \<open>4 / 2\<close> is scanned and parsed into one division of two Integer literals,
  whose root is annotated Float.
\<close>

theorem C1_binary_type_promotion:
  "(getResolvedType (fst (analyzeNode left st)) = Some lt \<and>
    getResolvedType (fst (analyzeNode right (snd (analyzeNode left st)))) = Some rt \<longrightarrow>
      getResolvedType (fst (analyzeNode (BinaryExpr operator left right position rt0) st)) =
        Some (if operator = ''/'' then Float
              else if lt = Float \<or> rt = Float then Float else Integer)) \<and>
   parse (pf :: string \<Rightarrow> 'm::equal) (40 + k) (tokenize pf ''4 / 2'') =
     Some (Inr \<lparr>pr_ast =
       [BinaryExpr ''/'' (Literal (pf ''4'') Integer \<lparr>line = 1, column = 1\<rparr> None)
          (Literal (pf ''2'') Integer \<lparr>line = 1, column = 5\<rparr> None)
          \<lparr>line = 1, column = 3\<rparr> None],
       pr_errors = []\<rparr>) \<and>
   sr_annotatedAst (analyze
       [BinaryExpr ''/'' (Literal (pf ''4'') Integer \<lparr>line = 1, column = 1\<rparr> None)
          (Literal (pf ''2'') Integer \<lparr>line = 1, column = 5\<rparr> None)
          \<lparr>line = 1, column = 3\<rparr> None]) =
     [BinaryExpr ''/'' (Literal (pf ''4'') Integer \<lparr>line = 1, column = 1\<rparr> (Some Integer))
        (Literal (pf ''2'') Integer \<lparr>line = 1, column = 5\<rparr> (Some Integer))
        \<lparr>line = 1, column = 3\<rparr> (Some Float)]"
proof (intro conjI impI)
  assume "getResolvedType (fst (analyzeNode left st)) = Some lt \<and>
    getResolvedType (fst (analyzeNode right (snd (analyzeNode left st)))) = Some rt"
  then show "getResolvedType (fst (analyzeNode (BinaryExpr operator left right position rt0) st)) =
        Some (if operator = ''/'' then Float
              else if lt = Float \<or> rt = Float then Float else Integer)"
    by (cases lt; cases rt) (simp_all add: Let_def case_prod_beta)
next
  from parse_4_div_2 [of pf] show "parse pf (40 + k) (tokenize pf ''4 / 2'') =
     Some (Inr \<lparr>pr_ast =
       [BinaryExpr ''/'' (Literal (pf ''4'') Integer \<lparr>line = 1, column = 1\<rparr> None)
          (Literal (pf ''2'') Integer \<lparr>line = 1, column = 5\<rparr> None)
          \<lparr>line = 1, column = 3\<rparr> None],
       pr_errors = []\<rparr>)"
    by (rule parse_mono)
next
  show "sr_annotatedAst (analyze
       [BinaryExpr ''/'' (Literal (pf ''4'') Integer \<lparr>line = 1, column = 1\<rparr> None)
          (Literal (pf ''2'') Integer \<lparr>line = 1, column = 5\<rparr> None)
          \<lparr>line = 1, column = 3\<rparr> None]) =
     [BinaryExpr ''/'' (Literal (pf ''4'') Integer \<lparr>line = 1, column = 1\<rparr> (Some Integer))
        (Literal (pf ''2'') Integer \<lparr>line = 1, column = 5\<rparr> (Some Integer))
        \<lparr>line = 1, column = 3\<rparr> (Some Float)]"
    by (simp add: analyze_def Let_def)
qed

theorem C1_binary_type_promotion_witness:
  "getResolvedType (fst (analyzeNode (Literal (4::rat) Integer \<lparr>line = 1, column = 1\<rparr> None)
      \<lparr>sa_symbolTable = Map.empty, sa_errors = []\<rparr>)) = Some Integer \<and>
   getResolvedType (fst (analyzeNode (Literal (2.5::rat) Float \<lparr>line = 1, column = 5\<rparr> None)
      (snd (analyzeNode (Literal (4::rat) Integer \<lparr>line = 1, column = 1\<rparr> None)
        \<lparr>sa_symbolTable = Map.empty, sa_errors = []\<rparr>)))) = Some Float \<and>
   getResolvedType (fst (analyzeNode
      (BinaryExpr ''*'' (Literal (4::rat) Integer \<lparr>line = 1, column = 1\<rparr> None)
         (Literal 2.5 Float \<lparr>line = 1, column = 5\<rparr> None) \<lparr>line = 1, column = 3\<rparr> None)
      \<lparr>sa_symbolTable = Map.empty, sa_errors = []\<rparr>)) = Some Float"
  using C1_binary_type_promotion
    [where left = "Literal (4::rat) Integer \<lparr>line = 1, column = 1\<rparr> None"
       and right = "Literal (2.5::rat) Float \<lparr>line = 1, column = 5\<rparr> None"
       and st = "\<lparr>sa_symbolTable = Map.empty, sa_errors = []\<rparr>"
       and lt = Integer and rt = Float and operator = "''*''"
       and position = "\<lparr>line = 1, column = 3\<rparr>" and ?rt0.0 = None
       and pf = decimalValue and k = 0]
  by simp

text \<open>
  C6. Analyzing an Assignment node first analyzes its value. If the value resolved to a
  type \<open>ty\<close>, the symbol table left by the value gets the entry
  \<open>{name, type: ty, definedAt: position of the assignment}\<close> under the name, whatever
  was stored there before; if the value has no type, the assignment writes nothing. The
  value of an assignment the parser builds is an expression, and analyzing an expression
  leaves the symbol table as it was, so that an undefined target stays undefined. After
  \<open>x = 5\<close>, \<open>x = 3.14\<close> the table has the single entry \<open>x\<close> of type Float, and after
  \<open>y = x + 1\<close> with \<open>x\<close> undefined it is empty.
\<close>

theorem C6_assignment_symbol_table:
  "(getResolvedType (fst (analyzeNode val st)) = Some ty \<longrightarrow>
      sa_symbolTable (snd (analyzeNode (Assignment name val position) st)) =
        (sa_symbolTable (snd (analyzeNode val st)))
          (name \<mapsto> \<lparr>se_name = name, se_type = ty, se_definedAt = position\<rparr>)) \<and>
   (getResolvedType (fst (analyzeNode val st)) = None \<longrightarrow>
      sa_symbolTable (snd (analyzeNode (Assignment name val position) st)) =
        sa_symbolTable (snd (analyzeNode val st))) \<and>
   (isExpression val \<longrightarrow> sa_symbolTable (snd (analyzeNode val st)) = sa_symbolTable st) \<and>
   parse (pf :: string \<Rightarrow> 'm::equal) (40 + k) (tokenize pf (''x = 5'' @ [CHR 0x0A] @ ''x = 3.14'')) =
     Some (Inr \<lparr>pr_ast =
       [Assignment ''x'' (Literal (pf ''5'') Integer \<lparr>line = 1, column = 5\<rparr> None)
          \<lparr>line = 1, column = 1\<rparr>,
        Assignment ''x'' (Literal (pf ''3.14'') Float \<lparr>line = 2, column = 5\<rparr> None)
          \<lparr>line = 2, column = 1\<rparr>],
       pr_errors = []\<rparr>) \<and>
   sr_symbolTable (analyze
       [Assignment ''x'' (Literal (pf ''5'') Integer \<lparr>line = 1, column = 5\<rparr> None)
          \<lparr>line = 1, column = 1\<rparr>,
        Assignment ''x'' (Literal (pf ''3.14'') Float \<lparr>line = 2, column = 5\<rparr> None)
          \<lparr>line = 2, column = 1\<rparr>]) =
     [''x'' \<mapsto> \<lparr>se_name = ''x'', se_type = Float, se_definedAt = \<lparr>line = 2, column = 1\<rparr>\<rparr>] \<and>
   parse pf (40 + k) (tokenize pf ''y = x + 1'') =
     Some (Inr \<lparr>pr_ast =
       [Assignment ''y''
          (BinaryExpr ''+'' (Variable ''x'' \<lparr>line = 1, column = 5\<rparr> None)
             (Literal (pf ''1'') Integer \<lparr>line = 1, column = 9\<rparr> None)
             \<lparr>line = 1, column = 7\<rparr> None)
          \<lparr>line = 1, column = 1\<rparr>],
       pr_errors = []\<rparr>) \<and>
   sr_symbolTable (analyze
       [Assignment ''y''
          (BinaryExpr ''+'' (Variable ''x'' \<lparr>line = 1, column = 5\<rparr> None)
             (Literal (pf ''1'') Integer \<lparr>line = 1, column = 9\<rparr> None)
             \<lparr>line = 1, column = 7\<rparr> None)
          \<lparr>line = 1, column = 1\<rparr>]) = Map.empty"
proof (intro conjI impI)
  assume "getResolvedType (fst (analyzeNode val st)) = Some ty"
  then show "sa_symbolTable (snd (analyzeNode (Assignment name val position) st)) =
        (sa_symbolTable (snd (analyzeNode val st)))
          (name \<mapsto> \<lparr>se_name = name, se_type = ty, se_definedAt = position\<rparr>)"
    by (simp add: Let_def case_prod_beta)
next
  assume "getResolvedType (fst (analyzeNode val st)) = None"
  then show "sa_symbolTable (snd (analyzeNode (Assignment name val position) st)) =
        sa_symbolTable (snd (analyzeNode val st))"
    by (simp add: Let_def case_prod_beta)
next
  assume "isExpression val"
  then show "sa_symbolTable (snd (analyzeNode val st)) = sa_symbolTable st"
    by (rule analyzeNode_expression_symbolTable)
next
  from parse_x_5_x_314 [of pf] show "parse pf (40 + k) (tokenize pf (''x = 5'' @ [CHR 0x0A] @ ''x = 3.14'')) =
     Some (Inr \<lparr>pr_ast =
       [Assignment ''x'' (Literal (pf ''5'') Integer \<lparr>line = 1, column = 5\<rparr> None)
          \<lparr>line = 1, column = 1\<rparr>,
        Assignment ''x'' (Literal (pf ''3.14'') Float \<lparr>line = 2, column = 5\<rparr> None)
          \<lparr>line = 2, column = 1\<rparr>],
       pr_errors = []\<rparr>)"
    by (rule parse_mono)
next
  show "sr_symbolTable (analyze
       [Assignment ''x'' (Literal (pf ''5'') Integer \<lparr>line = 1, column = 5\<rparr> None)
          \<lparr>line = 1, column = 1\<rparr>,
        Assignment ''x'' (Literal (pf ''3.14'') Float \<lparr>line = 2, column = 5\<rparr> None)
          \<lparr>line = 2, column = 1\<rparr>]) =
     [''x'' \<mapsto> \<lparr>se_name = ''x'', se_type = Float, se_definedAt = \<lparr>line = 2, column = 1\<rparr>\<rparr>]"
    by (simp add: analyze_def Let_def)
next
  from parse_y_x_1 [of pf] show "parse pf (40 + k) (tokenize pf ''y = x + 1'') =
     Some (Inr \<lparr>pr_ast =
       [Assignment ''y''
          (BinaryExpr ''+'' (Variable ''x'' \<lparr>line = 1, column = 5\<rparr> None)
             (Literal (pf ''1'') Integer \<lparr>line = 1, column = 9\<rparr> None)
             \<lparr>line = 1, column = 7\<rparr> None)
          \<lparr>line = 1, column = 1\<rparr>],
       pr_errors = []\<rparr>)"
    by (rule parse_mono)
next
  show "sr_symbolTable (analyze
       [Assignment ''y''
          (BinaryExpr ''+'' (Variable ''x'' \<lparr>line = 1, column = 5\<rparr> None)
             (Literal (pf ''1'') Integer \<lparr>line = 1, column = 9\<rparr> None)
             \<lparr>line = 1, column = 7\<rparr> None)
          \<lparr>line = 1, column = 1\<rparr>]) = Map.empty"
    by (simp add: analyze_def Let_def addErrorS_def)
qed

theorem C6_assignment_symbol_table_witness:
  "getResolvedType (fst (analyzeNode (Literal (3.14::rat) Float \<lparr>line = 2, column = 5\<rparr> None)
      \<lparr>sa_symbolTable =
          [''x'' \<mapsto> \<lparr>se_name = ''x'', se_type = Integer, se_definedAt = \<lparr>line = 1, column = 1\<rparr>\<rparr>],
        sa_errors = []\<rparr>)) = Some Float \<and>
   isExpression (Literal (3.14::rat) Float \<lparr>line = 2, column = 5\<rparr> None) \<and>
   sa_symbolTable (snd (analyzeNode
      (Assignment ''x'' (Literal (3.14::rat) Float \<lparr>line = 2, column = 5\<rparr> None)
         \<lparr>line = 2, column = 1\<rparr>)
      \<lparr>sa_symbolTable =
          [''x'' \<mapsto> \<lparr>se_name = ''x'', se_type = Integer, se_definedAt = \<lparr>line = 1, column = 1\<rparr>\<rparr>],
        sa_errors = []\<rparr>)) =
     [''x'' \<mapsto> \<lparr>se_name = ''x'', se_type = Float, se_definedAt = \<lparr>line = 2, column = 1\<rparr>\<rparr>] \<and>
   getResolvedType (fst (analyzeNode (Variable ''x'' \<lparr>line = 1, column = 5\<rparr> None :: rat ASTNode)
      \<lparr>sa_symbolTable = Map.empty, sa_errors = []\<rparr>)) = None \<and>
   sa_symbolTable (snd (analyzeNode
      (Assignment ''y'' (Variable ''x'' \<lparr>line = 1, column = 5\<rparr> None :: rat ASTNode)
         \<lparr>line = 1, column = 1\<rparr>)
      \<lparr>sa_symbolTable = Map.empty, sa_errors = []\<rparr>)) = Map.empty"
  using C6_assignment_symbol_table
    [where val = "Literal (3.14::rat) Float \<lparr>line = 2, column = 5\<rparr> None"
       and st = "\<lparr>sa_symbolTable =
          [''x'' \<mapsto> \<lparr>se_name = ''x'', se_type = Integer, se_definedAt = \<lparr>line = 1, column = 1\<rparr>\<rparr>],
          sa_errors = []\<rparr>"
       and ty = Float and name = "''x''" and position = "\<lparr>line = 2, column = 1\<rparr>"
       and pf = decimalValue and k = 0]
    C6_assignment_symbol_table
    [where val = "Variable ''x'' \<lparr>line = 1, column = 5\<rparr> None :: rat ASTNode"
       and st = "\<lparr>sa_symbolTable = Map.empty, sa_errors = []\<rparr>"
       and name = "''y''" and position = "\<lparr>line = 1, column = 1\<rparr>"
       and pf = decimalValue and k = 0]
  by (simp add: addErrorS_def)

lemma parse_x_x_x:
  "parse (pf :: string \<Rightarrow> 'm::equal) 40 (tokenize pf ''x + x + x'') =
     Some (Inr \<lparr>pr_ast =
       [BinaryExpr ''+''
          (BinaryExpr ''+'' (Variable ''x'' \<lparr>line = 1, column = 1\<rparr> None)
             (Variable ''x'' \<lparr>line = 1, column = 5\<rparr> None) \<lparr>line = 1, column = 3\<rparr> None)
          (Variable ''x'' \<lparr>line = 1, column = 9\<rparr> None) \<lparr>line = 1, column = 7\<rparr> None],
       pr_errors = []\<rparr>)"
  by code_simp

text \<open>
  C7. \<open>analyze\<close> reports exactly one semantic error for each occurrence of a Variable
  node whose name is not in the symbol table when the traversal reaches it: the errors
  after a node are the errors before it followed by one \<open>undefinedError\<close> per such
  occurrence, in order and with repetitions, for a single node and for the whole forest;
  in an expression these occurrences are all the Variable nodes whose name is not in the
  table. The error has phase \<open>semantic\<close>, the message \<open>Undefined variable '<name>'\<close>
  and \<open>variableName\<close> set. The undefined Variable node is returned as it came (the
  parser builds it without \<open>resolvedType\<close>, and it stays without one), and the analysis
  goes on: the annotated forest has as many nodes as the input. \<open>x + x + x\<close> with
  \<open>x\<close> undefined gives three errors.
\<close>

theorem C7_undefined_variable_errors:
  "sa_errors (snd (analyzeNode node st)) =
     sa_errors st @ map undefinedError (undefinedRefs node st) \<and>
   sr_errors (analyze ast) =
     map undefinedError
       (undefinedRefsOfList ast \<lparr>sa_symbolTable = Map.empty, sa_errors = []\<rparr>) \<and>
   length (sr_annotatedAst (analyze ast)) = length ast \<and>
   (isExpression e \<longrightarrow>
      undefinedRefs e st' =
        filter (\<lambda>ref. sa_symbolTable st' (fst ref) = None) (variablesOf e)) \<and>
   (sa_symbolTable st'' name = None \<longrightarrow>
      analyzeNode (Variable name position rt0) st'' =
        (Variable name position rt0,
         st''\<lparr>sa_errors := sa_errors st'' @ [undefinedError (name, position)]\<rparr>) \<and>
      getResolvedType (fst (analyzeNode (Variable name position None) st'')) = None) \<and>
   undefinedError (name, position) =
     \<lparr>ce_phase = Semantic,
      ce_message = ''Undefined variable '' @ [CHR 0x27] @ name @ [CHR 0x27],
      ce_position = position, ce_expected = None, ce_actual = None,
      ce_variableName = Some name\<rparr> \<and>
   parse (pf :: string \<Rightarrow> 'm::equal) (40 + k) (tokenize pf ''x + x + x'') =
     Some (Inr \<lparr>pr_ast =
       [BinaryExpr ''+''
          (BinaryExpr ''+'' (Variable ''x'' \<lparr>line = 1, column = 1\<rparr> None)
             (Variable ''x'' \<lparr>line = 1, column = 5\<rparr> None) \<lparr>line = 1, column = 3\<rparr> None)
          (Variable ''x'' \<lparr>line = 1, column = 9\<rparr> None) \<lparr>line = 1, column = 7\<rparr> None],
       pr_errors = []\<rparr>) \<and>
   sr_errors (analyze
       [BinaryExpr ''+''
          (BinaryExpr ''+'' (Variable ''x'' \<lparr>line = 1, column = 1\<rparr> None)
             (Variable ''x'' \<lparr>line = 1, column = 5\<rparr> None) \<lparr>line = 1, column = 3\<rparr> None)
          (Variable ''x'' \<lparr>line = 1, column = 9\<rparr> None) \<lparr>line = 1, column = 7\<rparr> None]) =
     [undefinedError (''x'', \<lparr>line = 1, column = 1\<rparr>),
      undefinedError (''x'', \<lparr>line = 1, column = 5\<rparr>),
      undefinedError (''x'', \<lparr>line = 1, column = 9\<rparr>)]"
proof (intro conjI impI)
  show "sa_errors (snd (analyzeNode node st)) =
     sa_errors st @ map undefinedError (undefinedRefs node st)"
    by (rule analyzeNode_errors)
next
  show "sr_errors (analyze ast) =
     map undefinedError
       (undefinedRefsOfList ast \<lparr>sa_symbolTable = Map.empty, sa_errors = []\<rparr>)"
    using analyzeLoop_errors [of ast "[]" "\<lparr>sa_symbolTable = Map.empty, sa_errors = []\<rparr>"]
    by (simp add: analyze_def Let_def case_prod_beta)
next
  show "length (sr_annotatedAst (analyze ast)) = length ast"
    using analyzeLoop_length [of ast "[]" "\<lparr>sa_symbolTable = Map.empty, sa_errors = []\<rparr>"]
    by (simp add: analyze_def Let_def case_prod_beta)
next
  assume "isExpression e"
  then show "undefinedRefs e st' =
        filter (\<lambda>ref. sa_symbolTable st' (fst ref) = None) (variablesOf e)"
    by (rule undefinedRefs_expression)
next
  assume "sa_symbolTable st'' name = None"
  then show "analyzeNode (Variable name position rt0) st'' =
        (Variable name position rt0,
         st''\<lparr>sa_errors := sa_errors st'' @ [undefinedError (name, position)]\<rparr>)"
    by (simp add: addErrorS_def undefinedError_def)
next
  assume "sa_symbolTable st'' name = None"
  then show "getResolvedType (fst (analyzeNode (Variable name position None) st'')) = None"
    by simp
next
  show "undefinedError (name, position) =
     \<lparr>ce_phase = Semantic,
      ce_message = ''Undefined variable '' @ [CHR 0x27] @ name @ [CHR 0x27],
      ce_position = position, ce_expected = None, ce_actual = None,
      ce_variableName = Some name\<rparr>"
    by (simp add: undefinedError_def)
next
  from parse_x_x_x [of pf]
  show "parse pf (40 + k) (tokenize pf ''x + x + x'') =
     Some (Inr \<lparr>pr_ast =
       [BinaryExpr ''+''
          (BinaryExpr ''+'' (Variable ''x'' \<lparr>line = 1, column = 1\<rparr> None)
             (Variable ''x'' \<lparr>line = 1, column = 5\<rparr> None) \<lparr>line = 1, column = 3\<rparr> None)
          (Variable ''x'' \<lparr>line = 1, column = 9\<rparr> None) \<lparr>line = 1, column = 7\<rparr> None],
       pr_errors = []\<rparr>)"
    by (rule parse_mono)
next
  show "sr_errors (analyze
       [BinaryExpr ''+''
          (BinaryExpr ''+'' (Variable ''x'' \<lparr>line = 1, column = 1\<rparr> None)
             (Variable ''x'' \<lparr>line = 1, column = 5\<rparr> None) \<lparr>line = 1, column = 3\<rparr> None)
          (Variable ''x'' \<lparr>line = 1, column = 9\<rparr> None) \<lparr>line = 1, column = 7\<rparr> None]) =
     [undefinedError (''x'', \<lparr>line = 1, column = 1\<rparr>),
      undefinedError (''x'', \<lparr>line = 1, column = 5\<rparr>),
      undefinedError (''x'', \<lparr>line = 1, column = 9\<rparr>)]"
    by (simp add: analyze_def Let_def addErrorS_def undefinedError_def)
qed

theorem C7_undefined_variable_errors_witness:
  "isExpression (BinaryExpr ''+'' (Variable ''y'' \<lparr>line = 1, column = 1\<rparr> None)
      (Variable ''y'' \<lparr>line = 1, column = 5\<rparr> None) \<lparr>line = 1, column = 3\<rparr> None
      :: rat ASTNode) \<and>
   undefinedRefs (BinaryExpr ''+'' (Variable ''y'' \<lparr>line = 1, column = 1\<rparr> None)
      (Variable ''y'' \<lparr>line = 1, column = 5\<rparr> None) \<lparr>line = 1, column = 3\<rparr> None
      :: rat ASTNode) \<lparr>sa_symbolTable = Map.empty, sa_errors = []\<rparr> =
     [(''y'', \<lparr>line = 1, column = 1\<rparr>), (''y'', \<lparr>line = 1, column = 5\<rparr>)] \<and>
   sa_symbolTable \<lparr>sa_symbolTable = Map.empty, sa_errors = []\<rparr> ''y'' = None \<and>
   analyzeNode (Variable ''y'' \<lparr>line = 1, column = 1\<rparr> None :: rat ASTNode)
       \<lparr>sa_symbolTable = Map.empty, sa_errors = []\<rparr> =
     (Variable ''y'' \<lparr>line = 1, column = 1\<rparr> None,
      \<lparr>sa_symbolTable = Map.empty,
       sa_errors = [undefinedError (''y'', \<lparr>line = 1, column = 1\<rparr>)]\<rparr>)"
  using C7_undefined_variable_errors
    [where e = "BinaryExpr ''+'' (Variable ''y'' \<lparr>line = 1, column = 1\<rparr> None)
         (Variable ''y'' \<lparr>line = 1, column = 5\<rparr> None) \<lparr>line = 1, column = 3\<rparr> None
         :: rat ASTNode"
       and st' = "\<lparr>sa_symbolTable = Map.empty, sa_errors = []\<rparr>"
       and st'' = "\<lparr>sa_symbolTable = Map.empty, sa_errors = []\<rparr>"
       and name = "''y''" and position = "\<lparr>line = 1, column = 1\<rparr>" and ?rt0.0 = None
       and node = "Variable ''y'' \<lparr>line = 1, column = 1\<rparr> None :: rat ASTNode"
       and st = "\<lparr>sa_symbolTable = Map.empty, sa_errors = []\<rparr>"
       and ast = "[] :: rat ASTNode list" and pf = decimalValue and k = 0]
  by (simp add: addErrorS_def undefinedError_def analyze_def)

section \<open>The evaluator of the parser tests (parser.test.ts)\<close>

text \<open>
  \<open>evaluate\<close> computes with JavaScript numbers. The arithmetic is a parameter: the
  five binary operations, \<open>Math.pow\<close> among them, and the unary minus. An undefined
  variable throws; an operator outside the five falls through to the Assignment case,
  which reads the missing field \<open>value\<close> and fails on it.
\<close>

record 'n numOps =
  op_add :: "'n \<Rightarrow> 'n \<Rightarrow> 'n"
  op_sub :: "'n \<Rightarrow> 'n \<Rightarrow> 'n"
  op_mul :: "'n \<Rightarrow> 'n \<Rightarrow> 'n"
  op_div :: "'n \<Rightarrow> 'n \<Rightarrow> 'n"
  op_pow :: "'n \<Rightarrow> 'n \<Rightarrow> 'n"
  op_neg :: "'n \<Rightarrow> 'n"

datatype evalError = UndefinedVariable string | EvalTypeError

fun evaluate :: "'n numOps \<Rightarrow> (string \<rightharpoonup> 'n) \<Rightarrow> 'n ASTNode \<Rightarrow> evalError + 'n" where
  "evaluate ops variables (Literal v dataType position resolvedType) = Inr v"
| "evaluate ops variables (Variable name position resolvedType) =
     (case variables name of
        None \<Rightarrow> Inl (UndefinedVariable name)
      | Some v \<Rightarrow> Inr v)"
| "evaluate ops variables (UnaryExpr operator operand position resolvedType) =
     (case evaluate ops variables operand of
        Inl e \<Rightarrow> Inl e
      | Inr v \<Rightarrow> if operator = ''-'' then Inr (op_neg ops v) else Inr v)"
| "evaluate ops variables (BinaryExpr operator left right position resolvedType) =
     (case evaluate ops variables left of
        Inl e \<Rightarrow> Inl e
      | Inr l \<Rightarrow>
          (case evaluate ops variables right of
             Inl e \<Rightarrow> Inl e
           | Inr r \<Rightarrow>
               if operator = ''+'' then Inr (op_add ops l r)
               else if operator = ''-'' then Inr (op_sub ops l r)
               else if operator = ''*'' then Inr (op_mul ops l r)
               else if operator = ''/'' then Inr (op_div ops l r)
               else if operator = ''^'' then Inr (op_pow ops l r)
               else Inl EvalTypeError))"
| "evaluate ops variables (Assignment name val position) = evaluate ops variables val"

section \<open>Tokens for examples\<close>

text \<open>The tokens the lexer makes of an integer literal, of an operator, and at the end.\<close>

definition integerToken :: "'n \<Rightarrow> string \<Rightarrow> Position \<Rightarrow> 'n Token" where
  "integerToken v lexeme position =
     \<lparr>tk_type = INTEGER, tk_lexeme = lexeme, tk_position = position, tk_literal = Some v\<rparr>"

definition plainToken :: "TokenType \<Rightarrow> string \<Rightarrow> Position \<Rightarrow> 'n Token" where
  "plainToken ty lexeme position =
     \<lparr>tk_type = ty, tk_lexeme = lexeme, tk_position = position, tk_literal = None\<rparr>"

lemma parse_pow_pow:
  "parse (pf :: string \<Rightarrow> 'm::equal) 40
     [integerToken a la pa, plainToken CARET ''^'' p1, integerToken b lb pb,
      plainToken CARET ''^'' p2, integerToken c lc pc, plainToken EOF '''' pe] =
   Some (Inr \<lparr>pr_ast =
     [BinaryExpr ''^'' (Literal a Integer pa None)
        (BinaryExpr ''^'' (Literal b Integer pb None) (Literal c Integer pc None) p2 None)
        p1 None],
     pr_errors = []\<rparr>)"
  by code_simp

lemma parse_sub_sub:
  "parse (pf :: string \<Rightarrow> 'm::equal) 40
     [integerToken a la pa, plainToken MINUS ''-'' p1, integerToken b lb pb,
      plainToken MINUS ''-'' p2, integerToken c lc pc, plainToken EOF '''' pe] =
   Some (Inr \<lparr>pr_ast =
     [BinaryExpr ''-''
        (BinaryExpr ''-'' (Literal a Integer pa None) (Literal b Integer pb None) p1 None)
        (Literal c Integer pc None) p2 None],
     pr_errors = []\<rparr>)"
  by code_simp

lemma parse_add_mul:
  "parse (pf :: string \<Rightarrow> 'm::equal) 40
     [integerToken a la pa, plainToken PLUS ''+'' p1, integerToken b lb pb,
      plainToken STAR ''*'' p2, integerToken c lc pc, plainToken EOF '''' pe] =
   Some (Inr \<lparr>pr_ast =
     [BinaryExpr ''+'' (Literal a Integer pa None)
        (BinaryExpr ''*'' (Literal b Integer pb None) (Literal c Integer pc None) p2 None)
        p1 None],
     pr_errors = []\<rparr>)"
  by code_simp

lemma parse_sub_div:
  "parse (pf :: string \<Rightarrow> 'm::equal) 40
     [integerToken a la pa, plainToken MINUS ''-'' p1, integerToken b lb pb,
      plainToken SLASH ''/'' p2, integerToken c lc pc, plainToken EOF '''' pe] =
   Some (Inr \<lparr>pr_ast =
     [BinaryExpr ''-'' (Literal a Integer pa None)
        (BinaryExpr ''/'' (Literal b Integer pb None) (Literal c Integer pc None) p2 None)
        p1 None],
     pr_errors = []\<rparr>)"
  by code_simp

lemma parse_paren_add_mul:
  "parse (pf :: string \<Rightarrow> 'm::equal) 40
     [plainToken LPAREN ''('' q1, integerToken a la pa, plainToken PLUS ''+'' p1,
      integerToken b lb pb, plainToken RPAREN '')'' q2,
      plainToken STAR ''*'' p2, integerToken c lc pc, plainToken EOF '''' pe] =
   Some (Inr \<lparr>pr_ast =
     [BinaryExpr ''*''
        (BinaryExpr ''+'' (Literal a Integer pa None) (Literal b Integer pb None) p1 None)
        (Literal c Integer pc None) p2 None],
     pr_errors = []\<rparr>)"
  by code_simp

lemma parse_sub_paren_sub:
  "parse (pf :: string \<Rightarrow> 'm::equal) 40
     [integerToken a la pa, plainToken MINUS ''-'' p1, plainToken LPAREN ''('' q1,
      integerToken b lb pb, plainToken MINUS ''-'' p2, integerToken c lc pc,
      plainToken RPAREN '')'' q2, plainToken EOF '''' pe] =
   Some (Inr \<lparr>pr_ast =
     [BinaryExpr ''-'' (Literal a Integer pa None)
        (BinaryExpr ''-'' (Literal b Integer pb None) (Literal c Integer pc None) p2 None)
        p1 None],
     pr_errors = []\<rparr>)"
  by code_simp

lemma parse_paren_pow_pow:
  "parse (pf :: string \<Rightarrow> 'm::equal) 40
     [plainToken LPAREN ''('' q1, integerToken a la pa, plainToken CARET ''^'' p1,
      integerToken b lb pb, plainToken RPAREN '')'' q2,
      plainToken CARET ''^'' p2, integerToken c lc pc, plainToken EOF '''' pe] =
   Some (Inr \<lparr>pr_ast =
     [BinaryExpr ''^''
        (BinaryExpr ''^'' (Literal a Integer pa None) (Literal b Integer pb None) p1 None)
        (Literal c Integer pc None) p2 None],
     pr_errors = []\<rparr>)"
  by code_simp

lemma tokenize_pow_pow:
  "tokenize (pf :: string \<Rightarrow> 'm::equal) ''2 ^ 3 ^ 2'' =
     [integerToken (pf ''2'') ''2'' \<lparr>line = 1, column = 1\<rparr>,
      plainToken CARET ''^'' \<lparr>line = 1, column = 3\<rparr>,
      integerToken (pf ''3'') ''3'' \<lparr>line = 1, column = 5\<rparr>,
      plainToken CARET ''^'' \<lparr>line = 1, column = 7\<rparr>,
      integerToken (pf ''2'') ''2'' \<lparr>line = 1, column = 9\<rparr>,
      plainToken EOF '''' \<lparr>line = 1, column = 10\<rparr>]"
  by code_simp

lemma parse_1_2_3:
  "parse (pf :: string \<Rightarrow> 'm::equal) 40 (tokenize pf ''1 + 2 3'') =
     Some (Inr \<lparr>pr_ast =
       [BinaryExpr ''+'' (Literal (pf ''1'') Integer \<lparr>line = 1, column = 1\<rparr> None)
          (Literal (pf ''2'') Integer \<lparr>line = 1, column = 5\<rparr> None)
          \<lparr>line = 1, column = 3\<rparr> None,
        Literal (pf ''3'') Integer \<lparr>line = 1, column = 7\<rparr> None],
       pr_errors = []\<rparr>)"
  by code_simp

lemma parse_x_y_w_2:
  "parse (pf :: string \<Rightarrow> 'm::equal) 40 (tokenize pf ''x + y w * 2'') =
     Some (Inr \<lparr>pr_ast =
       [BinaryExpr ''+'' (Variable ''x'' \<lparr>line = 1, column = 1\<rparr> None)
          (Variable ''y'' \<lparr>line = 1, column = 5\<rparr> None) \<lparr>line = 1, column = 3\<rparr> None,
        BinaryExpr ''*'' (Variable ''w'' \<lparr>line = 1, column = 7\<rparr> None)
          (Literal (pf ''2'') Integer \<lparr>line = 1, column = 11\<rparr> None)
          \<lparr>line = 1, column = 9\<rparr> None],
       pr_errors = []\<rparr>)"
  by code_simp


text \<open>
  C4. Precedence and associativity. For all integer literals \<open>a\<close>, \<open>b\<close>, \<open>c\<close>
  (whatever their values, lexemes and positions), the tokens of \<open>a ^ b ^ c\<close> parse
  to \<open>a ^ (b ^ c)\<close>, those of \<open>a - b - c\<close> to \<open>(a - b) - c\<close>, those of
  \<open>a + b * c\<close> to \<open>a + (b * c)\<close> and those of \<open>a - b / c\<close> to
  \<open>a - (b / c)\<close>; with parentheses, \<open>(a + b) * c\<close>, \<open>a - (b - c)\<close> and
  \<open>(a ^ b) ^ c\<close> parse as they are bracketed. Each parse yields one statement and no
  error, and evaluating the tree with the evaluator of the tests gives the value of the
  bracketed form, for any arithmetic. The lexer makes exactly such tokens of
  \<open>2 ^ 3 ^ 2\<close>.
\<close>

theorem C4_precedence_and_associativity:
  "parse (pf :: string \<Rightarrow> 'm::equal) (40 + k)
     [integerToken a la pa, plainToken CARET ''^'' p1, integerToken b lb pb,
      plainToken CARET ''^'' p2, integerToken c lc pc, plainToken EOF '''' pe] =
   Some (Inr \<lparr>pr_ast =
     [BinaryExpr ''^'' (Literal a Integer pa None)
        (BinaryExpr ''^'' (Literal b Integer pb None) (Literal c Integer pc None) p2 None)
        p1 None],
     pr_errors = []\<rparr>) \<and>
   evaluate ops variables
     (BinaryExpr ''^'' (Literal a Integer pa None)
        (BinaryExpr ''^'' (Literal b Integer pb None) (Literal c Integer pc None) p2 None)
        p1 None) =
   Inr (op_pow ops a (op_pow ops b c)) \<and>
   parse pf (40 + k)
     [integerToken a la pa, plainToken MINUS ''-'' p1, integerToken b lb pb,
      plainToken MINUS ''-'' p2, integerToken c lc pc, plainToken EOF '''' pe] =
   Some (Inr \<lparr>pr_ast =
     [BinaryExpr ''-''
        (BinaryExpr ''-'' (Literal a Integer pa None) (Literal b Integer pb None) p1 None)
        (Literal c Integer pc None) p2 None],
     pr_errors = []\<rparr>) \<and>
   evaluate ops variables
     (BinaryExpr ''-''
        (BinaryExpr ''-'' (Literal a Integer pa None) (Literal b Integer pb None) p1 None)
        (Literal c Integer pc None) p2 None) =
   Inr (op_sub ops (op_sub ops a b) c) \<and>
   parse pf (40 + k)
     [integerToken a la pa, plainToken PLUS ''+'' p1, integerToken b lb pb,
      plainToken STAR ''*'' p2, integerToken c lc pc, plainToken EOF '''' pe] =
   Some (Inr \<lparr>pr_ast =
     [BinaryExpr ''+'' (Literal a Integer pa None)
        (BinaryExpr ''*'' (Literal b Integer pb None) (Literal c Integer pc None) p2 None)
        p1 None],
     pr_errors = []\<rparr>) \<and>
   evaluate ops variables
     (BinaryExpr ''+'' (Literal a Integer pa None)
        (BinaryExpr ''*'' (Literal b Integer pb None) (Literal c Integer pc None) p2 None)
        p1 None) =
   Inr (op_add ops a (op_mul ops b c)) \<and>
   parse pf (40 + k)
     [integerToken a la pa, plainToken MINUS ''-'' p1, integerToken b lb pb,
      plainToken SLASH ''/'' p2, integerToken c lc pc, plainToken EOF '''' pe] =
   Some (Inr \<lparr>pr_ast =
     [BinaryExpr ''-'' (Literal a Integer pa None)
        (BinaryExpr ''/'' (Literal b Integer pb None) (Literal c Integer pc None) p2 None)
        p1 None],
     pr_errors = []\<rparr>) \<and>
   evaluate ops variables
     (BinaryExpr ''-'' (Literal a Integer pa None)
        (BinaryExpr ''/'' (Literal b Integer pb None) (Literal c Integer pc None) p2 None)
        p1 None) =
   Inr (op_sub ops a (op_div ops b c)) \<and>
   parse pf (40 + k)
     [plainToken LPAREN ''('' q1, integerToken a la pa, plainToken PLUS ''+'' p1,
      integerToken b lb pb, plainToken RPAREN '')'' q2,
      plainToken STAR ''*'' p2, integerToken c lc pc, plainToken EOF '''' pe] =
   Some (Inr \<lparr>pr_ast =
     [BinaryExpr ''*''
        (BinaryExpr ''+'' (Literal a Integer pa None) (Literal b Integer pb None) p1 None)
        (Literal c Integer pc None) p2 None],
     pr_errors = []\<rparr>) \<and>
   evaluate ops variables
     (BinaryExpr ''*''
        (BinaryExpr ''+'' (Literal a Integer pa None) (Literal b Integer pb None) p1 None)
        (Literal c Integer pc None) p2 None) =
   Inr (op_mul ops (op_add ops a b) c) \<and>
   parse pf (40 + k)
     [integerToken a la pa, plainToken MINUS ''-'' p1, plainToken LPAREN ''('' q1,
      integerToken b lb pb, plainToken MINUS ''-'' p2, integerToken c lc pc,
      plainToken RPAREN '')'' q2, plainToken EOF '''' pe] =
   Some (Inr \<lparr>pr_ast =
     [BinaryExpr ''-'' (Literal a Integer pa None)
        (BinaryExpr ''-'' (Literal b Integer pb None) (Literal c Integer pc None) p2 None)
        p1 None],
     pr_errors = []\<rparr>) \<and>
   evaluate ops variables
     (BinaryExpr ''-'' (Literal a Integer pa None)
        (BinaryExpr ''-'' (Literal b Integer pb None) (Literal c Integer pc None) p2 None)
        p1 None) =
   Inr (op_sub ops a (op_sub ops b c)) \<and>
   parse pf (40 + k)
     [plainToken LPAREN ''('' q1, integerToken a la pa, plainToken CARET ''^'' p1,
      integerToken b lb pb, plainToken RPAREN '')'' q2,
      plainToken CARET ''^'' p2, integerToken c lc pc, plainToken EOF '''' pe] =
   Some (Inr \<lparr>pr_ast =
     [BinaryExpr ''^''
        (BinaryExpr ''^'' (Literal a Integer pa None) (Literal b Integer pb None) p1 None)
        (Literal c Integer pc None) p2 None],
     pr_errors = []\<rparr>) \<and>
   evaluate ops variables
     (BinaryExpr ''^''
        (BinaryExpr ''^'' (Literal a Integer pa None) (Literal b Integer pb None) p1 None)
        (Literal c Integer pc None) p2 None) =
   Inr (op_pow ops (op_pow ops a b) c) \<and>
   tokenize pf ''2 ^ 3 ^ 2'' =
     [integerToken (pf ''2'') ''2'' \<lparr>line = 1, column = 1\<rparr>,
      plainToken CARET ''^'' \<lparr>line = 1, column = 3\<rparr>,
      integerToken (pf ''3'') ''3'' \<lparr>line = 1, column = 5\<rparr>,
      plainToken CARET ''^'' \<lparr>line = 1, column = 7\<rparr>,
      integerToken (pf ''2'') ''2'' \<lparr>line = 1, column = 9\<rparr>,
      plainToken EOF '''' \<lparr>line = 1, column = 10\<rparr>]"
proof (intro conjI)
  from parse_pow_pow [of pf]
  show "parse pf (40 + k)
     [integerToken a la pa, plainToken CARET ''^'' p1, integerToken b lb pb,
      plainToken CARET ''^'' p2, integerToken c lc pc, plainToken EOF '''' pe] =
   Some (Inr \<lparr>pr_ast =
     [BinaryExpr ''^'' (Literal a Integer pa None)
        (BinaryExpr ''^'' (Literal b Integer pb None) (Literal c Integer pc None) p2 None)
        p1 None],
     pr_errors = []\<rparr>)"
    by (rule parse_mono)
next
  show "evaluate ops variables
     (BinaryExpr ''^'' (Literal a Integer pa None)
        (BinaryExpr ''^'' (Literal b Integer pb None) (Literal c Integer pc None) p2 None)
        p1 None) =
   Inr (op_pow ops a (op_pow ops b c))"
    by simp
next
  from parse_sub_sub [of pf]
  show "parse pf (40 + k)
     [integerToken a la pa, plainToken MINUS ''-'' p1, integerToken b lb pb,
      plainToken MINUS ''-'' p2, integerToken c lc pc, plainToken EOF '''' pe] =
   Some (Inr \<lparr>pr_ast =
     [BinaryExpr ''-''
        (BinaryExpr ''-'' (Literal a Integer pa None) (Literal b Integer pb None) p1 None)
        (Literal c Integer pc None) p2 None],
     pr_errors = []\<rparr>)"
    by (rule parse_mono)
next
  show "evaluate ops variables
     (BinaryExpr ''-''
        (BinaryExpr ''-'' (Literal a Integer pa None) (Literal b Integer pb None) p1 None)
        (Literal c Integer pc None) p2 None) =
   Inr (op_sub ops (op_sub ops a b) c)"
    by simp
next
  from parse_add_mul [of pf]
  show "parse pf (40 + k)
     [integerToken a la pa, plainToken PLUS ''+'' p1, integerToken b lb pb,
      plainToken STAR ''*'' p2, integerToken c lc pc, plainToken EOF '''' pe] =
   Some (Inr \<lparr>pr_ast =
     [BinaryExpr ''+'' (Literal a Integer pa None)
        (BinaryExpr ''*'' (Literal b Integer pb None) (Literal c Integer pc None) p2 None)
        p1 None],
     pr_errors = []\<rparr>)"
    by (rule parse_mono)
next
  show "evaluate ops variables
     (BinaryExpr ''+'' (Literal a Integer pa None)
        (BinaryExpr ''*'' (Literal b Integer pb None) (Literal c Integer pc None) p2 None)
        p1 None) =
   Inr (op_add ops a (op_mul ops b c))"
    by simp
next
  from parse_sub_div [of pf]
  show "parse pf (40 + k)
     [integerToken a la pa, plainToken MINUS ''-'' p1, integerToken b lb pb,
      plainToken SLASH ''/'' p2, integerToken c lc pc, plainToken EOF '''' pe] =
   Some (Inr \<lparr>pr_ast =
     [BinaryExpr ''-'' (Literal a Integer pa None)
        (BinaryExpr ''/'' (Literal b Integer pb None) (Literal c Integer pc None) p2 None)
        p1 None],
     pr_errors = []\<rparr>)"
    by (rule parse_mono)
next
  show "evaluate ops variables
     (BinaryExpr ''-'' (Literal a Integer pa None)
        (BinaryExpr ''/'' (Literal b Integer pb None) (Literal c Integer pc None) p2 None)
        p1 None) =
   Inr (op_sub ops a (op_div ops b c))"
    by simp
next
  from parse_paren_add_mul [of pf]
  show "parse pf (40 + k)
     [plainToken LPAREN ''('' q1, integerToken a la pa, plainToken PLUS ''+'' p1,
      integerToken b lb pb, plainToken RPAREN '')'' q2,
      plainToken STAR ''*'' p2, integerToken c lc pc, plainToken EOF '''' pe] =
   Some (Inr \<lparr>pr_ast =
     [BinaryExpr ''*''
        (BinaryExpr ''+'' (Literal a Integer pa None) (Literal b Integer pb None) p1 None)
        (Literal c Integer pc None) p2 None],
     pr_errors = []\<rparr>)"
    by (rule parse_mono)
next
  show "evaluate ops variables
     (BinaryExpr ''*''
        (BinaryExpr ''+'' (Literal a Integer pa None) (Literal b Integer pb None) p1 None)
        (Literal c Integer pc None) p2 None) =
   Inr (op_mul ops (op_add ops a b) c)"
    by simp
next
  from parse_sub_paren_sub [of pf]
  show "parse pf (40 + k)
     [integerToken a la pa, plainToken MINUS ''-'' p1, plainToken LPAREN ''('' q1,
      integerToken b lb pb, plainToken MINUS ''-'' p2, integerToken c lc pc,
      plainToken RPAREN '')'' q2, plainToken EOF '''' pe] =
   Some (Inr \<lparr>pr_ast =
     [BinaryExpr ''-'' (Literal a Integer pa None)
        (BinaryExpr ''-'' (Literal b Integer pb None) (Literal c Integer pc None) p2 None)
        p1 None],
     pr_errors = []\<rparr>)"
    by (rule parse_mono)
next
  show "evaluate ops variables
     (BinaryExpr ''-'' (Literal a Integer pa None)
        (BinaryExpr ''-'' (Literal b Integer pb None) (Literal c Integer pc None) p2 None)
        p1 None) =
   Inr (op_sub ops a (op_sub ops b c))"
    by simp
next
  from parse_paren_pow_pow [of pf]
  show "parse pf (40 + k)
     [plainToken LPAREN ''('' q1, integerToken a la pa, plainToken CARET ''^'' p1,
      integerToken b lb pb, plainToken RPAREN '')'' q2,
      plainToken CARET ''^'' p2, integerToken c lc pc, plainToken EOF '''' pe] =
   Some (Inr \<lparr>pr_ast =
     [BinaryExpr ''^''
        (BinaryExpr ''^'' (Literal a Integer pa None) (Literal b Integer pb None) p1 None)
        (Literal c Integer pc None) p2 None],
     pr_errors = []\<rparr>)"
    by (rule parse_mono)
next
  show "evaluate ops variables
     (BinaryExpr ''^''
        (BinaryExpr ''^'' (Literal a Integer pa None) (Literal b Integer pb None) p1 None)
        (Literal c Integer pc None) p2 None) =
   Inr (op_pow ops (op_pow ops a b) c)"
    by simp
next
  show "tokenize pf ''2 ^ 3 ^ 2'' =
     [integerToken (pf ''2'') ''2'' \<lparr>line = 1, column = 1\<rparr>,
      plainToken CARET ''^'' \<lparr>line = 1, column = 3\<rparr>,
      integerToken (pf ''3'') ''3'' \<lparr>line = 1, column = 5\<rparr>,
      plainToken CARET ''^'' \<lparr>line = 1, column = 7\<rparr>,
      integerToken (pf ''2'') ''2'' \<lparr>line = 1, column = 9\<rparr>,
      plainToken EOF '''' \<lparr>line = 1, column = 10\<rparr>]"
    by (rule tokenize_pow_pow)
qed

text \<open>
  C2. After a statement, a token that neither ends the input nor begins an assignment
  should be reported as a syntax error. The parser has no such check: \<open>parse\<close> loops
  while the cursor is not at EOF and starts the next statement at the trailing token. So
  \<open>1 + 2 3\<close> parses to the two statements \<open>1 + 2\<close> and \<open>3\<close>, and
  \<open>x + y w * 2\<close> to \<open>x + y\<close> and \<open>w * 2\<close>, both with an empty error list.
\<close>

theorem C2_trailing_token_not_reported:
  "parse (pf :: string \<Rightarrow> 'm::equal) (40 + k) (tokenize pf ''1 + 2 3'') =
     Some (Inr \<lparr>pr_ast =
       [BinaryExpr ''+'' (Literal (pf ''1'') Integer \<lparr>line = 1, column = 1\<rparr> None)
          (Literal (pf ''2'') Integer \<lparr>line = 1, column = 5\<rparr> None)
          \<lparr>line = 1, column = 3\<rparr> None,
        Literal (pf ''3'') Integer \<lparr>line = 1, column = 7\<rparr> None],
       pr_errors = []\<rparr>) \<and>
   parse pf (40 + k) (tokenize pf ''x + y w * 2'') =
     Some (Inr \<lparr>pr_ast =
       [BinaryExpr ''+'' (Variable ''x'' \<lparr>line = 1, column = 1\<rparr> None)
          (Variable ''y'' \<lparr>line = 1, column = 5\<rparr> None) \<lparr>line = 1, column = 3\<rparr> None,
        BinaryExpr ''*'' (Variable ''w'' \<lparr>line = 1, column = 7\<rparr> None)
          (Literal (pf ''2'') Integer \<lparr>line = 1, column = 11\<rparr> None)
          \<lparr>line = 1, column = 9\<rparr> None],
       pr_errors = []\<rparr>)"
  using parse_1_2_3 [of pf, THEN parse_mono, of k] parse_x_y_w_2 [of pf, THEN parse_mono, of k]
  by simp

section \<open>Parser: ERROR tokens\<close>















section \<open>Lexer: what a scan appends\<close>

lemma digitsLoop_run:
  "digitsLoop lx =
     lx\<lparr>lx_current := lx_current lx
           + length (takeWhile isDigit (drop (lx_current lx) (lx_source lx))),
        lx_column := lx_column lx
           + length (takeWhile isDigit (drop (lx_current lx) (lx_source lx)))\<rparr>"
proof (induction lx rule: digitsLoop.induct)
  case (1 lx)
  show ?case
  proof (cases "isDigit (peekL lx)")
    case False
    then have "takeWhile isDigit (drop (lx_current lx) (lx_source lx)) = []"
      by (cases "drop (lx_current lx) (lx_source lx)")
         (auto simp: peekL_def isAtEndL_def hd_drop_conv_nth split: if_splits
            dest: arg_cong [where f = hd])
    with False show ?thesis by (subst digitsLoop.simps) simp
  next
    case True
    then have lt: "lx_current lx < length (lx_source lx)"
      and d: "isDigit (lx_source lx ! lx_current lx)"
      by (auto simp: peekL_def isAtEndL_def isDigit_def split: if_splits)
    from lt have dr: "drop (lx_current lx) (lx_source lx)
        = lx_source lx ! lx_current lx # drop (Suc (lx_current lx)) (lx_source lx)"
      by (simp add: Cons_nth_drop_Suc)
    from "1.IH" [OF True] True d dr show ?thesis
      by (subst digitsLoop.simps) (simp add: advanceL_def)
  qed
qed

lemma digitsLoop_fields [simp]:
  "lx_tokens (digitsLoop lx) = lx_tokens lx"
  "lx_start (digitsLoop lx) = lx_start lx"
  "lx_line (digitsLoop lx) = lx_line lx"
  "lx_startColumn (digitsLoop lx) = lx_startColumn lx"
  by (subst digitsLoop_run, simp)+

lemma alnumLoop_tokens [simp]: "lx_tokens (alnumLoop lx) = lx_tokens lx"
  by (induction lx rule: alnumLoop.induct)
     (subst alnumLoop.simps, simp add: advanceL_def)

text \<open>Every scan step appends at most one token, and never an EOF token.\<close>

lemma scanToken_tokens:
  "lx_tokens (scanToken pf lx) = lx_tokens lx \<or>
   (\<exists>t. lx_tokens (scanToken pf lx) = lx_tokens lx @ [t] \<and> tk_type t \<noteq> EOF)"
  by (simp add: scanToken_def advanceL_def addToken_def addErrorToken_def number_def
      identifierL_def Let_def split: option.splits)

lemma tokenizeLoop_tokens:
  "\<exists>ts. lx_tokens (tokenizeLoop pf lx) = lx_tokens lx @ ts \<and> EOF \<notin> tk_type ` set ts"
proof (induction pf lx rule: tokenizeLoop.induct)
  case (1 pf lx)
  show ?case
  proof (cases "isAtEndL lx")
    case True
    then show ?thesis by (subst tokenizeLoop.simps) simp
  next
    case False
    let ?lx0 = "lx\<lparr>lx_start := lx_current lx, lx_startColumn := lx_column lx\<rparr>"
    from "1.IH" [OF False] obtain ts where
      ts: "lx_tokens (tokenizeLoop pf (scanToken pf ?lx0)) = lx_tokens (scanToken pf ?lx0) @ ts"
      and no: "EOF \<notin> tk_type ` set ts"
      by blast
    from scanToken_tokens [of pf ?lx0]
    obtain us where us: "lx_tokens (scanToken pf ?lx0) = lx_tokens lx @ us"
      and nou: "EOF \<notin> tk_type ` set us"
      by auto
    from ts us no nou False show ?thesis
      by (subst tokenizeLoop.simps) auto
  qed
qed


lemma tokenize_shape:
  "\<exists>ts. tokenize pf src =
          ts @ [\<lparr>tk_type = EOF, tk_lexeme = '''',
                 tk_position =
                   \<lparr>line = lx_line (tokenizeLoop pf (newLexer src)),
                    column = lx_column (tokenizeLoop pf (newLexer src))\<rparr>,
                 tk_literal = None\<rparr>] \<and>
        EOF \<notin> tk_type ` set ts"
  using tokenizeLoop_tokens [of pf "newLexer src"]
  by (auto simp: tokenize_def tokenizeL_def Let_def newLexer_def)

lemma all_token_types: "(UNIV :: TokenType set) =
    {INTEGER, FLOAT, IDENTIFIER, PLUS, MINUS, STAR, SLASH, CARET, LPAREN, RPAREN,
     EQUALS, EOF, ERROR}"
proof -
  have "ty \<in> {INTEGER, FLOAT, IDENTIFIER, PLUS, MINUS, STAR, SLASH, CARET, LPAREN, RPAREN,
     EQUALS, EOF, ERROR}" for ty
    by (cases ty) simp_all
  then show ?thesis by blast
qed

lemma tokenize_empty:
  "tokenize pf '''' = [plainToken EOF '''' \<lparr>line = 1, column = 1\<rparr>]"
  by (simp add: tokenize_def tokenizeL_def newLexer_def tokenizeLoop.simps isAtEndL_def
      plainToken_def)

lemma tokenize_42_dot:
  "tokenize (pf :: string \<Rightarrow> 'm::equal) ''42.'' =
     [integerToken (pf ''42'') ''42'' \<lparr>line = 1, column = 1\<rparr>,
      plainToken ERROR ''.'' \<lparr>line = 1, column = 3\<rparr>,
      plainToken EOF '''' \<lparr>line = 1, column = 4\<rparr>]"
  by code_simp

lemma tokenize_42_5:
  "tokenize (pf :: string \<Rightarrow> 'm::equal) ''42.5'' =
     [\<lparr>tk_type = FLOAT, tk_lexeme = ''42.5'', tk_position = \<lparr>line = 1, column = 1\<rparr>,
       tk_literal = Some (pf ''42.5'')\<rparr>,
      plainToken EOF '''' \<lparr>line = 1, column = 5\<rparr>]"
  by code_simp

lemma decimalValue_examples:
  "decimalValue ''42'' = 42 \<and> decimalValue ''42.5'' = 85 / 2"
  by code_simp

text \<open>
  C5. \<open>tokenize\<close> is a total function of the source string (the loops of the lexer
  terminate, and nothing in it raises). Its result is never empty; it consists of tokens
  none of which is EOF, followed by one EOF token with the empty lexeme, so that EOF
  occurs once, at the last position; every token type is one of the thirteen kinds. The
  empty string gives the EOF token alone.
\<close>

theorem C5_tokenize_ends_with_single_EOF:
  "tokenize pf src \<noteq> [] \<and>
   tk_type (last (tokenize pf src)) = EOF \<and>
   tk_lexeme (last (tokenize pf src)) = '''' \<and>
   EOF \<notin> tk_type ` set (butlast (tokenize pf src)) \<and>
   length (filter (\<lambda>t. tk_type t = EOF) (tokenize pf src)) = 1 \<and>
   tk_type ` set (tokenize pf src) \<subseteq>
     {INTEGER, FLOAT, IDENTIFIER, PLUS, MINUS, STAR, SLASH, CARET, LPAREN, RPAREN,
      EQUALS, EOF, ERROR} \<and>
   tokenize pf '''' = [plainToken EOF '''' \<lparr>line = 1, column = 1\<rparr>]"
proof -
  from tokenize_shape [of pf src] obtain ts e where
    sh: "tokenize pf src = ts @ [e]" and e: "tk_type e = EOF" "tk_lexeme e = ''''"
    and no: "EOF \<notin> tk_type ` set ts"
    by auto
  from no have "filter (\<lambda>t. tk_type t = EOF) ts = []"
    by (force simp: filter_empty_conv image_iff)
  with sh e have one: "length (filter (\<lambda>t. tk_type t = EOF) (tokenize pf src)) = 1"
    by simp
  have kinds: "tk_type ` set (tokenize pf src) \<subseteq>
     {INTEGER, FLOAT, IDENTIFIER, PLUS, MINUS, STAR, SLASH, CARET, LPAREN, RPAREN,
      EQUALS, EOF, ERROR}"
    using all_token_types by blast
  from sh e no one kinds tokenize_empty [of pf] show ?thesis by simp
qed

text \<open>
  C8. The number rule. From the cursor, \<open>number\<close> consumes the maximal run of digits,
  up to index \<open>i\<close>. The token is a FLOAT exactly when the character at \<open>i\<close> is a point
  and the character at \<open>i + 1\<close> is a digit; then the point and the maximal run of digits
  after it are consumed too. Otherwise the token is an INTEGER and the cursor stays at
  \<open>i\<close>, before the point if there is one. In both cases one token is appended, whose
  lexeme is the source from \<open>start\<close> to the new cursor and whose literal is
  \<open>parseFloat\<close> of that lexeme. So \<open>42.\<close> gives INTEGER \<open>42\<close>, an ERROR token with
  lexeme \<open>.\<close>, and EOF, while \<open>42.5\<close> gives one FLOAT; read as decimals the literals
  are 42 and 42.5.
\<close>

theorem C8_number_rule:
  "(let s = lx_source lx;
        i = lx_current lx + length (takeWhile isDigit (drop (lx_current lx) s));
        isFloat = (elemAt s i = Some CHR ''.'' \<and>
                   (case elemAt s (i + 1) of None \<Rightarrow> False | Some d \<Rightarrow> isDigit d));
        j = (if isFloat then i + 1 + length (takeWhile isDigit (drop (i + 1) s)) else i);
        lexeme = substring s (lx_start lx) j
    in lx_current (number pf lx) = j \<and>
       lx_tokens (number pf lx) =
         lx_tokens lx @
           [\<lparr>tk_type = (if isFloat then FLOAT else INTEGER), tk_lexeme = lexeme,
             tk_position = \<lparr>line = lx_line lx, column = lx_startColumn lx\<rparr>,
             tk_literal = Some (pf lexeme)\<rparr>]) \<and>
   tokenize (pf' :: string \<Rightarrow> 'm::equal) ''42.'' =
     [integerToken (pf' ''42'') ''42'' \<lparr>line = 1, column = 1\<rparr>,
      plainToken ERROR ''.'' \<lparr>line = 1, column = 3\<rparr>,
      plainToken EOF '''' \<lparr>line = 1, column = 4\<rparr>] \<and>
   tokenize pf' ''42.5'' =
     [\<lparr>tk_type = FLOAT, tk_lexeme = ''42.5'', tk_position = \<lparr>line = 1, column = 1\<rparr>,
       tk_literal = Some (pf' ''42.5'')\<rparr>,
      plainToken EOF '''' \<lparr>line = 1, column = 5\<rparr>] \<and>
   decimalValue ''42'' = 42 \<and> decimalValue ''42.5'' = 85 / 2"
proof (intro conjI)
  let ?s = "lx_source lx"
  let ?i = "lx_current lx + length (takeWhile isDigit (drop (lx_current lx) ?s))"
  let ?lx1 = "digitsLoop lx"
  have c1: "lx_current ?lx1 = ?i" by (subst digitsLoop_run) simp
  have pk: "(peekL ?lx1 = CHR ''.'') = (elemAt ?s ?i = Some CHR ''.'')"
    using c1 by (auto simp: peekL_def isAtEndL_def elemAt_def)
  have pn: "isDigit (peekNext ?lx1) =
      (case elemAt ?s (?i + 1) of None \<Rightarrow> False | Some d \<Rightarrow> isDigit d)"
    using c1 by (auto simp: peekNext_def elemAt_def isDigit_def)
  let ?lxa = "snd (advanceL ?lx1)"
  have ca: "lx_current ?lxa = ?i + 1" and sa: "lx_source ?lxa = ?s"
    using c1 by (simp_all add: advanceL_def)
  have c2: "lx_current (digitsLoop ?lxa) = ?i + 1 + length (takeWhile isDigit (drop (?i + 1) ?s))"
    by (subst digitsLoop_run) (simp add: ca sa)
  have f2: "lx_tokens ?lxa = lx_tokens lx" "lx_start ?lxa = lx_start lx"
    "lx_line ?lxa = lx_line lx" "lx_startColumn ?lxa = lx_startColumn lx"
    by (simp_all add: advanceL_def)
  show "(let s = lx_source lx;
        i = lx_current lx + length (takeWhile isDigit (drop (lx_current lx) s));
        isFloat = (elemAt s i = Some CHR ''.'' \<and>
                   (case elemAt s (i + 1) of None \<Rightarrow> False | Some d \<Rightarrow> isDigit d));
        j = (if isFloat then i + 1 + length (takeWhile isDigit (drop (i + 1) s)) else i);
        lexeme = substring s (lx_start lx) j
    in lx_current (number pf lx) = j \<and>
       lx_tokens (number pf lx) =
         lx_tokens lx @
           [\<lparr>tk_type = (if isFloat then FLOAT else INTEGER), tk_lexeme = lexeme,
             tk_position = \<lparr>line = lx_line lx, column = lx_startColumn lx\<rparr>,
             tk_literal = Some (pf lexeme)\<rparr>])"
    unfolding number_def Let_def pk pn
    by (simp add: addToken_def getPosition_def c1 c2 f2 sa)
next
  show "tokenize pf' ''42.'' =
     [integerToken (pf' ''42'') ''42'' \<lparr>line = 1, column = 1\<rparr>,
      plainToken ERROR ''.'' \<lparr>line = 1, column = 3\<rparr>,
      plainToken EOF '''' \<lparr>line = 1, column = 4\<rparr>]"
    by (rule tokenize_42_dot)
next
  show "tokenize pf' ''42.5'' =
     [\<lparr>tk_type = FLOAT, tk_lexeme = ''42.5'', tk_position = \<lparr>line = 1, column = 1\<rparr>,
       tk_literal = Some (pf' ''42.5'')\<rparr>,
      plainToken EOF '''' \<lparr>line = 1, column = 5\<rparr>]"
    by (rule tokenize_42_5)
next
  show "decimalValue ''42'' = 42" using decimalValue_examples by simp
next
  show "decimalValue ''42.5'' = 85 / 2" using decimalValue_examples by simp
qed

section \<open>The semantic analyzer on a store of node objects\<close>

text \<open>
  In JavaScript an AST node is an object and the fields \<open>left\<close>, \<open>right\<close>, \<open>operand\<close>
  and \<open>value\<close> hold references. To speak about which objects \<open>analyze\<close> creates and
  which it returns as they are, this section runs the methods of the analyzer on a store:
  a list of objects in the order of their creation, an address being an index into it.
  An object literal \<open>{...}\<close> allocates a new object at the end of the store; no statement
  of semantic.ts assigns to a field of an existing node. Since an object is created after
  the objects it refers to and is never updated, a child has a smaller address than its
  parent; a reference that does not obey this is answered with \<open>NotAnObject\<close>.
\<close>

type_synonym addr = nat

datatype 'n nodeObj =
    AssignmentObj string addr Position
  | BinaryExprObj string addr addr Position "DataType option"
  | UnaryExprObj string addr Position "DataType option"
  | LiteralObj 'n DataType Position "DataType option"
  | VariableObj string Position "DataType option"











definition isVariableObj :: "'n nodeObj list \<Rightarrow> addr \<Rightarrow> bool" where
  "isVariableObj s a =
     (case elemAt s a of Some (VariableObj name position resolvedType) \<Rightarrow> True | _ \<Rightarrow> False)"

lemma elemAt_append [simp]: "a < length s \<Longrightarrow> elemAt (s @ new) a = elemAt s a"
  by (simp add: elemAt_def nth_append)

lemma elemAt_length [simp]: "elemAt (s @ [ob]) (length s) = Some ob"
  by (simp add: elemAt_def)







lemma isVariableObj_append [simp]:
  "b < length s \<Longrightarrow> isVariableObj (s @ new) b = isVariableObj s b"
  by (simp add: isVariableObj_def)

























section \<open>C9: the analyzer and the objects of its input\<close>




end
